theory Spec2Isabelle
  imports Main "HOL-Library.Sublist" "HOL-Library.Char_ord"
begin

section \<open>The infrastructure stack of aws-cdk-infra\<close>

text \<open>
  The repository has two source files: \<^verbatim>\<open>src/index.ts\<close>, the class \<^verbatim>\<open>InfraStack\<close> with its
  constructor and the private method \<^verbatim>\<open>createInfraPipeline\<close>, and the application entry
  point (\<^verbatim>\<open>src/unnamed/part_000\<close>), which reads the environment from the application
  context and instantiates the stack.

  The construct library is not part of the repository. What the embedding keeps of each
  construct is the configuration that the source hands to it: the names, the policy
  statements that the source adds to the two roles, the build variables and the properties
  of the change-set action. The other properties of the source (billing mode, removal
  policies, build image, principals, stage and action names, the outputs) are constants that
  no statement below is about.

  Two constructors of the library throw on a name they do not accept, and the source calls
  them with names built from its input: the stack constructor, reached through
  \<^verbatim>\<open>super(scope, id, props)\<close>, and the bucket constructor. Both throws are branches of the
  embedding. A failure records what was thrown and which constructs of the stack had been
  declared before.
\<close>

subsection \<open>Context values and the \<^verbatim>\<open>||\<close> operator\<close>

text \<open>
  The application context maps keys to values; \<^verbatim>\<open>tryGetContext\<close> returns \<^verbatim>\<open>undefined\<close>
  (here \<open>None\<close>) for a key that is absent. Context values are strings, as the command line
  option \<^verbatim>\<open>--context key=value\<close> supplies them.
\<close>

type_synonym "context" = "string \<rightharpoonup> string"

definition tryGetContext :: "context \<Rightarrow> string \<Rightarrow> string option" where
  "tryGetContext ctx key = ctx key"

text \<open>
  \<^verbatim>\<open>a || b\<close> yields \<^verbatim>\<open>a\<close> when \<^verbatim>\<open>a\<close> is truthy and \<^verbatim>\<open>b\<close> otherwise. Of the values
  \<^verbatim>\<open>a\<close> ranges over here, \<^verbatim>\<open>undefined\<close> and the empty string are the falsy ones.
\<close>

definition js_or :: "string option \<Rightarrow> string \<Rightarrow> string" where
  "js_or a b = (case a of None \<Rightarrow> b | Some s \<Rightarrow> if s = [] then b else s)"

subsection \<open>Data\<close>

text \<open>
  The four constructs of \<^verbatim>\<open>createInfraPipeline\<close> whose ARN the source reads back, under the
  ids that the source gives them.
\<close>

datatype construct =
  InfraArtifactBucket | InfraPackagingBucket | InfraGitHubConnection | InfraCodeBuildProject

text \<open>
  A resource of a policy statement is either a template literal of the source
  (\<open>Pattern\<close>) or an attribute read from a construct: \<^verbatim>\<open>x.bucketArn\<close>,
  \<^verbatim>\<open>x.attrConnectionArn\<close> and \<^verbatim>\<open>x.projectArn\<close> are \<open>ArnOf x\<close>, and
  \<^verbatim>\<open>`${x.bucketArn}/*`\<close> is \<open>ObjectsOf x\<close>. Such an attribute is a token that the platform
  resolves when it deploys; it has no text in the source, and none here.
\<close>

datatype resource = Pattern string | ArnOf construct | ObjectsOf construct

record policy_statement =
  sid :: "string option"
  actions :: "string list"
  resources :: "resource list"

text \<open>
  The stack object once \<^verbatim>\<open>super(scope, id, props)\<close> has returned: its construct id, the
  values of \<^verbatim>\<open>this.region\<close> and \<^verbatim>\<open>this.account\<close>, and the context that
  \<^verbatim>\<open>this.node.tryGetContext\<close> reads.
\<close>

record stack_this =
  stack_id :: string
  region :: string
  account :: string
  node_context :: "context"

text \<open>
  What \<^verbatim>\<open>createInfraPipeline\<close> declares. The two fields \<open>\<dots>_addToPolicy\<close> hold the
  statements that the source adds to the role with \<^verbatim>\<open>addToPolicy\<close>, in the order of the
  source. When a role is handed to the build project, to the pipeline and to the change-set
  action, the library grants it further statements of its own; these are not written in
  the source and are not part of the record.
\<close>

record infra_pipeline =
  artifactBucketName :: string
  packagingBucketName :: string
  connectionName :: string
  infraCodeBuildServiceRole_addToPolicy :: "policy_statement list"
  projectName :: string
  environmentVariables :: "(string \<times> string) list"
  infraCodePipelineExecutionRole_addToPolicy :: "policy_statement list"
  pipelineName :: string
  sourceBranch :: string
  stackName :: string
  changeSetName :: string
  templatePath :: string
  executeStackName :: string
  executeChangeSetName :: string

record infra_stack =
  construct_id :: string
  tableName :: string
  tableTags :: "(string \<times> string) list"
  infraPipeline :: infra_pipeline

text \<open>
  The first three error kinds are those that the specification names; the source has no
  \<^verbatim>\<open>throw\<close> statement and no check of its input, so nothing raises them. The last two are
  the errors that the library throws, with the name that it rejected.
\<close>

datatype error =
  InvalidEnvironment | NameTooLong | NameCollision
  | InvalidStackName string | InvalidBucketName string

text \<open>
  A failed construction: the error thrown, and the ids of the constructs of the stack whose
  constructors had returned before the throw, in the order of the source.
\<close>

record failure =
  thrown :: error
  declared :: "string list"

subsection \<open>The checks of the library on names\<close>

definition is_lower :: "char \<Rightarrow> bool" where
  "is_lower c = (CHR ''a'' \<le> c \<and> c \<le> CHR ''z'')"

definition is_upper :: "char \<Rightarrow> bool" where
  "is_upper c = (CHR ''A'' \<le> c \<and> c \<le> CHR ''Z'')"

definition is_digit :: "char \<Rightarrow> bool" where
  "is_digit c = (CHR ''0'' \<le> c \<and> c \<le> CHR ''9'')"

text \<open>
  The bucket constructor validates a bucket name that is a plain string (the library's
  \<^verbatim>\<open>Bucket.validateBucketName\<close>, without the option for legacy names) and throws when a rule
  is broken: 3 to 63 characters; only lower-case letters, digits, periods and dashes; a
  lower-case letter or a digit at either end; no period next to a dash or to a period; not
  the shape of an IP address. \<open>validateBucketName n\<close> holds when the name passes, so when
  nothing is thrown.
\<close>

definition bucket_char :: "char \<Rightarrow> bool" where
  "bucket_char c = (is_lower c \<or> is_digit c \<or> c = CHR ''.'' \<or> c = CHR ''-'')"

definition edge_char :: "char \<Rightarrow> bool" where
  "edge_char c = (is_lower c \<or> is_digit c)"

fun split_dot :: "string \<Rightarrow> string list" where
  "split_dot [] = [[]]"
| "split_dot (c # cs) =
     (if c = CHR ''.'' then [] # split_dot cs
      else (case split_dot cs of [] \<Rightarrow> [[c]] | p # ps \<Rightarrow> (c # p) # ps))"

definition ip_like :: "string \<Rightarrow> bool" where
  "ip_like n =
    (length (split_dot n) = 4
     \<and> list_all (\<lambda>p. 1 \<le> length p \<and> length p \<le> 3 \<and> list_all is_digit p) (split_dot n))"

definition validateBucketName :: "string \<Rightarrow> bool" where
  "validateBucketName n =
    (n = []
     \<or> (3 \<le> length n \<and> length n \<le> 63
        \<and> list_all bucket_char n
        \<and> edge_char (hd n) \<and> edge_char (last n)
        \<and> \<not> sublist ''.-'' n \<and> \<not> sublist ''-.'' n \<and> \<not> sublist ''..'' n
        \<and> \<not> ip_like n))"

text \<open>
  The stack constructor tests the name of the stack against the regular expression
  \<^verbatim>\<open>^[A-Za-z][A-Za-z0-9-]*$\<close>. The name is the id of the stack when the id has at most
  128 characters and no path separator, as the ids in the instances below have.
\<close>

definition validStackName :: "string \<Rightarrow> bool" where
  "validStackName n =
    (case n of
       [] \<Rightarrow> False
     | c # cs \<Rightarrow> (is_lower c \<or> is_upper c)
                  \<and> list_all (\<lambda>d. is_lower d \<or> is_upper d \<or> is_digit d \<or> d = CHR ''-'') cs)"

subsection \<open>\<^verbatim>\<open>createInfraPipeline\<close> (index.ts, lines 52 to 360)\<close>

text \<open>The statements of the four and of the ten \<^verbatim>\<open>addToPolicy\<close> calls of the source.\<close>

definition codeBuildStatements :: "stack_this \<Rightarrow> string \<Rightarrow> policy_statement list" where
  "codeBuildStatements this env =
    [ \<lparr> sid = None,
        actions = [''logs:CreateLogGroup'', ''logs:CreateLogStream'', ''logs:PutLogEvents'',
                   ''logs:DescribeLogStreams''],
        resources = [Pattern (''arn:aws:logs:'' @ region this @ '':'' @ account this
                       @ '':log-group:/aws/codebuild/sle-'' @ env @ ''-infra-codebuild*'')] \<rparr>,
      \<lparr> sid = None,
        actions = [''s3:GetObject'', ''s3:PutObject'', ''s3:GetObjectVersion'', ''s3:ListBucket''],
        resources = [ArnOf InfraArtifactBucket, ObjectsOf InfraArtifactBucket,
                     ArnOf InfraPackagingBucket, ObjectsOf InfraPackagingBucket] \<rparr>,
      \<lparr> sid = None,
        actions = [''cloudformation:ValidateTemplate'', ''cloudformation:DescribeStacks'',
                   ''cloudformation:PackageType''],
        resources = [Pattern ''*''] \<rparr>,
      \<lparr> sid = None,
        actions = [''iam:PassRole''],
        resources = [Pattern (''arn:aws:iam::'' @ account this @ '':role/sle-'' @ env @ ''-*'')] \<rparr> ]"

definition codePipelineStatements :: "stack_this \<Rightarrow> string \<Rightarrow> policy_statement list" where
  "codePipelineStatements this env =
    [ \<lparr> sid = Some ''PipelineStackPermission'',
        actions = [''cloudformation:CreateStack'', ''cloudformation:DeleteStack'',
                   ''cloudformation:RollbackStack'', ''cloudformation:DescribeStacks'',
                   ''cloudformation:UpdateStack'', ''cloudformation:SetStackPolicy'',
                   ''cloudformation:GetStackPolicy'', ''cloudformation:GetTemplate'',
                   ''cloudformation:ListStacks''],
        resources = [Pattern (''arn:aws:cloudformation:'' @ region this @ '':'' @ account this
                       @ '':stack/sle-'' @ env @ ''-*'')] \<rparr>,
      \<lparr> sid = Some ''PipelineChangeSetPermission'',
        actions = [''cloudformation:ListChangeSets'', ''cloudformation:CreateChangeSet'',
                   ''cloudformation:DescribeChangeSet'', ''cloudformation:ExecuteChangeSet'',
                   ''cloudformation:DeleteChangeSet''],
        resources = [Pattern ''*''] \<rparr>,
      \<lparr> sid = Some ''DynamoDB'',
        actions = [''dynamodb:CreateTable'', ''dynamodb:UpdateTable'', ''dynamodb:DescribeTable'',
                   ''dynamodb:DeleteTable'', ''dynamodb:TagResource'', ''dynamodb:UntagResource'',
                   ''dynamodb:UpdateContinuousBackups'', ''dynamodb:DescribeContinuousBackups''],
        resources = [Pattern (''arn:aws:dynamodb:'' @ region this @ '':'' @ account this
                       @ '':table/school-licenses-table'')] \<rparr>,
      \<lparr> sid = Some ''S3ListPermissions'',
        actions = [''s3:ListBucket'', ''s3:GetObjectVersion'', ''s3:GetObject'', ''s3:PutObject'',
                   ''s3:DeleteObject'', ''s3:TagResource'', ''s3:UntagResource'',
                   ''s3:ListTagsForResource'', ''s3:PutBucketPublicAccessBlock''],
        resources = [Pattern (''arn:aws:s3:::sle-'' @ env @ ''-*''),
                     Pattern (''arn:aws:s3:::sle-'' @ env @ ''-*/*'')] \<rparr>,
      \<lparr> sid = None,
        actions = [''codestar-connections:UseConnection'', ''codestar-connections:GetConnection''],
        resources = [ArnOf InfraGitHubConnection] \<rparr>,
      \<lparr> sid = None,
        actions = [''codebuild:StartBuild'', ''codebuild:BatchGetBuilds''],
        resources = [ArnOf InfraCodeBuildProject] \<rparr>,
      \<lparr> sid = Some ''ApplicationPipelinePermissions'',
        actions = [''codeconnections:CreateConnection'', ''codeconnections:GetConnection'',
                   ''codeconnections:DeleteConnection'', ''codeconnections:TagResource'',
                   ''codeconnections:ListTagsForResource'', ''codestar-connections:PassConnection''],
        resources = [Pattern (''arn:aws:codestar-connections:'' @ region this @ '':''
                       @ account this @ '':*'')] \<rparr>,
      \<lparr> sid = Some ''CodeBuildAccess'',
        actions = [''codebuild:CreateProject'', ''codebuild:DeleteProject''],
        resources = [Pattern (''arn:aws:codebuild:'' @ region this @ '':'' @ account this
                       @ '':project/sle-'' @ env @ ''-*'')] \<rparr>,
      \<lparr> sid = Some ''CodePipelineAccess'',
        actions = [''codepipeline:CreatePipeline'', ''codepipeline:DeletePipeline'',
                   ''codepipeline:TagResource'', ''codepipeline:UntagResource'',
                   ''codepipeline:GetPipeline''],
        resources = [Pattern (''arn:aws:codepipeline:'' @ region this @ '':'' @ account this
                       @ '':sle-'' @ env @ ''-*'')] \<rparr>,
      \<lparr> sid = Some ''SSMParameterStoreAccess'',
        actions = [''ssm:GetParameter'', ''ssm:PutParameter'', ''ssm:DeleteParameter''],
        resources = [Pattern (''arn:aws:ssm:'' @ region this @ '':'' @ account this
                       @ '':parameter/cdk-bootstrap*'')] \<rparr> ]"

text \<open>
  The values of the property expressions of the method: the template literals, the statement
  lists and the \<^verbatim>\<open>||\<close> defaults. Evaluating them cannot fail.
\<close>

definition infraPipelineProps :: "stack_this \<Rightarrow> string \<Rightarrow> infra_pipeline" where
  "infraPipelineProps this env =
    \<lparr> artifactBucketName = ''sle-'' @ env @ ''-infra-artifacts'',
      packagingBucketName = ''sle-'' @ env @ ''-packaging-bucket'',
      connectionName = ''sle-'' @ env @ ''-git-infra-conn'',
      infraCodeBuildServiceRole_addToPolicy = codeBuildStatements this env,
      projectName = ''sle-'' @ env @ ''-infra-codebuild'',
      environmentVariables =
        [ (''PACKAGING_BUCKET'', ''sle-'' @ env @ ''-packaging-bucket''),
          (''ENVIRONMENT'', js_or (tryGetContext (node_context this) ''environment'') env),
          (''PIPELINE_GITHUB_BRANCH'',
             js_or (tryGetContext (node_context this) ''pipelineGithubBranch'') ''main'') ],
      infraCodePipelineExecutionRole_addToPolicy = codePipelineStatements this env,
      pipelineName = ''sle-'' @ env @ ''-infra-pipeline'',
      sourceBranch = js_or (tryGetContext (node_context this) ''pipelineGithubBranch'') ''main'',
      stackName = ''sle-'' @ env @ ''-infra-cf'',
      changeSetName = ''sle-'' @ env @ ''-infra-changeset'',
      templatePath = ''sle-infrastructure-'' @ env @ ''.template.json'',
      executeStackName = ''sle-'' @ env @ ''-infra-cf'',
      executeChangeSetName = ''sle-'' @ env @ ''-infra-changeset'' \<rparr>"

text \<open>
  The method itself. The artifact bucket is declared first (line 54) and the packaging bucket
  second (line 60); the bucket constructor throws on a name that it rejects, and nothing
  after the throw is declared. With both names accepted the method declares everything.
\<close>

definition createInfraPipeline :: "stack_this \<Rightarrow> string \<Rightarrow> failure + infra_pipeline" where
  "createInfraPipeline this env =
    (let p = infraPipelineProps this env
     in if \<not> validateBucketName (artifactBucketName p)
        then Inl \<lparr> thrown = InvalidBucketName (artifactBucketName p), declared = [] \<rparr>
        else if \<not> validateBucketName (packagingBucketName p)
        then Inl \<lparr> thrown = InvalidBucketName (packagingBucketName p),
                   declared = [''InfraArtifactBucket''] \<rparr>
        else Inr p)"

subsection \<open>The constructor (index.ts, lines 17 to 49)\<close>

text \<open>
  \<^verbatim>\<open>props.environment\<close> is read and used as it is, with no test of its own. The table is
  declared with its fixed name and tagged, then \<^verbatim>\<open>createInfraPipeline\<close> is called; a throw
  in there leaves the constructor, with the table declared.
\<close>

definition InfraStack :: "stack_this \<Rightarrow> string \<Rightarrow> failure + infra_stack" where
  "InfraStack this props_environment =
    (let env = props_environment
     in case createInfraPipeline this env of
          Inl f \<Rightarrow> Inl (f\<lparr> declared := ''Table'' # declared f \<rparr>)
        | Inr p \<Rightarrow>
            Inr \<lparr> construct_id = stack_id this,
                  tableName = ''school-licenses-table'',
                  tableTags = [(''Environment'', env), (''Service'', ''sle''),
                               (''stack'', ''cdk-infra'')],
                  infraPipeline = p \<rparr>)"

subsection \<open>The application entry point (part_000)\<close>

text \<open>
  The application: its context, and the region and account that the library gives to a
  stack declared without an explicit \<^verbatim>\<open>env\<close>, as this one is.

  \<open>super\<close> is the call \<^verbatim>\<open>super(scope, id, props)\<close>, the first statement of the constructor.
  Whether the stack constructor of the library accepts the id is its parameter \<open>accepts\<close>:
  the library derives the name of the stack from the id and throws when the name does not
  pass its test. When the id is accepted, the stack object holds the id and the region,
  account and context of its scope.
\<close>

record app =
  app_context :: "context"
  app_region :: string
  app_account :: string

definition super :: "(string \<Rightarrow> bool) \<Rightarrow> app \<Rightarrow> string \<Rightarrow> failure + stack_this" where
  "super accepts scope ident =
    (if accepts ident
     then Inr \<lparr> stack_id = ident, region = app_region scope, account = app_account scope,
                node_context = app_context scope \<rparr>
     else Inl \<lparr> thrown = InvalidStackName ident, declared = [] \<rparr>)"

definition app_environment :: "app \<Rightarrow> string" where
  "app_environment a = js_or (tryGetContext (app_context a) ''environment'') ''dev''"

definition main :: "(string \<Rightarrow> bool) \<Rightarrow> app \<Rightarrow> failure + infra_stack" where
  "main accepts a =
    (let env = app_environment a
     in case super accepts a (''sle-infrastructure-'' @ env) of
          Inl f \<Rightarrow> Inl f
        | Inr this \<Rightarrow> InfraStack this env)"

subsection \<open>The derivation of the specification, read off the stack\<close>

text \<open>
  The seven names that depend on the environment, in the order: artifact bucket, packaging
  bucket, connection, build project, pipeline, stack, change set; and the names that the
  specification's \<^verbatim>\<open>derive\<close> returns, the table name in front of these.
\<close>

definition pipelineNames :: "infra_pipeline \<Rightarrow> string list" where
  "pipelineNames p =
    [artifactBucketName p, packagingBucketName p, connectionName p,
     projectName p, pipelineName p, stackName p, changeSetName p]"

definition names :: "infra_stack \<Rightarrow> string list" where
  "names s = tableName s # pipelineNames (infraPipeline s)"

text \<open>The statements that the source adds to the two roles.\<close>

definition addedStatements :: "infra_pipeline \<Rightarrow> policy_statement list" where
  "addedStatements p =
    infraCodeBuildServiceRole_addToPolicy p @ infraCodePipelineExecutionRole_addToPolicy p"

definition derive :: "stack_this \<Rightarrow> string \<Rightarrow> failure + (string list \<times> policy_statement list)" where
  "derive this env =
    (case InfraStack this env of
       Inl f \<Rightarrow> Inl f
     | Inr s \<Rightarrow> Inr (names s, addedStatements (infraPipeline s)))"

subsection \<open>Predicates of the specification\<close>

text \<open>
  The input constraint of the specification, the regular expression
  \<^verbatim>\<open>^[a-z][a-z0-9-]*$\<close>: a lower-case letter followed by lower-case letters, digits and
  hyphens. It is stated by the specification only; the source has no such test.
\<close>

definition name_char :: "char \<Rightarrow> bool" where
  "name_char c = (is_lower c \<or> is_digit c \<or> c = CHR ''-'')"

definition spec_valid_environment :: "string \<Rightarrow> bool" where
  "spec_valid_environment env =
    (case env of [] \<Rightarrow> False | c # cs \<Rightarrow> is_lower c \<and> list_all name_char cs)"

text \<open>The limit of the platform on the name of a storage bucket, as the specification puts it.\<close>

definition spec_bucket_name_ok :: "string \<Rightarrow> bool" where
  "spec_bucket_name_ok n = (length n \<le> 63 \<and> list_all name_char n)"

text \<open>
  The three exceptions that the specification documents, recognised by an action of the
  statement: change-set description and listing, template validation, connection creation.
\<close>

definition spec_documented_exception :: "policy_statement \<Rightarrow> bool" where
  "spec_documented_exception s =
    (''cloudformation:DescribeChangeSet'' \<in> set (actions s)
     \<or> ''cloudformation:ListChangeSets'' \<in> set (actions s)
     \<or> ''cloudformation:ValidateTemplate'' \<in> set (actions s)
     \<or> ''codeconnections:CreateConnection'' \<in> set (actions s))"

text \<open>
  What the source does. A resource is of one of two kinds. A pattern is in the namespace of
  the environment when it contains \<^verbatim>\<open>sle-<env>-\<close>. The other resources are ARN attributes
  of the stack's own constructs; they are tokens, in no namespace as far as the source goes,
  and are kept apart.
\<close>

fun in_namespace :: "string \<Rightarrow> resource \<Rightarrow> bool" where
  "in_namespace env (Pattern p) = sublist (''sle-'' @ env @ ''-'') p"
| "in_namespace env (ArnOf x) = False"
| "in_namespace env (ObjectsOf x) = False"

fun own_attribute :: "resource \<Rightarrow> bool" where
  "own_attribute (Pattern p) = False"
| "own_attribute (ArnOf x) = True"
| "own_attribute (ObjectsOf x) = True"

definition namespace_or_attribute :: "string \<Rightarrow> resource \<Rightarrow> bool" where
  "namespace_or_attribute env r = (in_namespace env r \<or> own_attribute r)"

text \<open>The statements, of a list, that have a resource of neither kind.\<close>

definition unscoped :: "string \<Rightarrow> policy_statement list \<Rightarrow> policy_statement list" where
  "unscoped env stmts =
    filter (\<lambda>s. \<not> list_all (namespace_or_attribute env) (resources s)) stmts"

text \<open>
  The five statements of the source that do not name the environment, one of the build role
  and four of the pipeline role, as the source writes them.
\<close>

definition five_exceptions :: "stack_this \<Rightarrow> policy_statement list" where
  "five_exceptions this =
    [ \<lparr> sid = None,
        actions = [''cloudformation:ValidateTemplate'', ''cloudformation:DescribeStacks'',
                   ''cloudformation:PackageType''],
        resources = [Pattern ''*''] \<rparr>,
      \<lparr> sid = Some ''PipelineChangeSetPermission'',
        actions = [''cloudformation:ListChangeSets'', ''cloudformation:CreateChangeSet'',
                   ''cloudformation:DescribeChangeSet'', ''cloudformation:ExecuteChangeSet'',
                   ''cloudformation:DeleteChangeSet''],
        resources = [Pattern ''*''] \<rparr>,
      \<lparr> sid = Some ''DynamoDB'',
        actions = [''dynamodb:CreateTable'', ''dynamodb:UpdateTable'', ''dynamodb:DescribeTable'',
                   ''dynamodb:DeleteTable'', ''dynamodb:TagResource'', ''dynamodb:UntagResource'',
                   ''dynamodb:UpdateContinuousBackups'', ''dynamodb:DescribeContinuousBackups''],
        resources = [Pattern (''arn:aws:dynamodb:'' @ region this @ '':'' @ account this
                       @ '':table/school-licenses-table'')] \<rparr>,
      \<lparr> sid = Some ''ApplicationPipelinePermissions'',
        actions = [''codeconnections:CreateConnection'', ''codeconnections:GetConnection'',
                   ''codeconnections:DeleteConnection'', ''codeconnections:TagResource'',
                   ''codeconnections:ListTagsForResource'', ''codestar-connections:PassConnection''],
        resources = [Pattern (''arn:aws:codestar-connections:'' @ region this @ '':''
                       @ account this @ '':*'')] \<rparr>,
      \<lparr> sid = Some ''SSMParameterStoreAccess'',
        actions = [''ssm:GetParameter'', ''ssm:PutParameter'', ''ssm:DeleteParameter''],
        resources = [Pattern (''arn:aws:ssm:'' @ region this @ '':'' @ account this
                       @ '':parameter/cdk-bootstrap*'')] \<rparr> ]"

text \<open>
  The three statements of the source with resources that are attributes of constructs: on
  the two buckets and their objects, on the connection, on the build project.
\<close>

definition attribute_statements :: "policy_statement list" where
  "attribute_statements =
    [ \<lparr> sid = None,
        actions = [''s3:GetObject'', ''s3:PutObject'', ''s3:GetObjectVersion'', ''s3:ListBucket''],
        resources = [ArnOf InfraArtifactBucket, ObjectsOf InfraArtifactBucket,
                     ArnOf InfraPackagingBucket, ObjectsOf InfraPackagingBucket] \<rparr>,
      \<lparr> sid = None,
        actions = [''codestar-connections:UseConnection'', ''codestar-connections:GetConnection''],
        resources = [ArnOf InfraGitHubConnection] \<rparr>,
      \<lparr> sid = None,
        actions = [''codebuild:StartBuild'', ''codebuild:BatchGetBuilds''],
        resources = [ArnOf InfraCodeBuildProject] \<rparr> ]"

text \<open>A stack object and an application for the concrete instances below.\<close>

abbreviation (input) example_this :: stack_this where
  "example_this \<equiv>
     \<lparr>stack_id = ''sle-infrastructure-dev'', region = ''us-east-1'',
      account = ''123456789012'', node_context = Map.empty\<rparr>"

abbreviation (input) example_app :: app where
  "example_app \<equiv>
     \<lparr>app_context = Map.empty, app_region = ''us-east-1'', app_account = ''123456789012''\<rparr>"

section \<open>Helper facts\<close>

subsection \<open>Names and statements of the properties\<close>

lemma infraPipelineProps_names:
  "artifactBucketName (infraPipelineProps this env) = ''sle-'' @ env @ ''-infra-artifacts''"
  "packagingBucketName (infraPipelineProps this env) = ''sle-'' @ env @ ''-packaging-bucket''"
  "connectionName (infraPipelineProps this env) = ''sle-'' @ env @ ''-git-infra-conn''"
  "projectName (infraPipelineProps this env) = ''sle-'' @ env @ ''-infra-codebuild''"
  "pipelineName (infraPipelineProps this env) = ''sle-'' @ env @ ''-infra-pipeline''"
  "stackName (infraPipelineProps this env) = ''sle-'' @ env @ ''-infra-cf''"
  "changeSetName (infraPipelineProps this env) = ''sle-'' @ env @ ''-infra-changeset''"
  by (simp_all add: infraPipelineProps_def)

lemma pipelineNames_props:
  "pipelineNames (infraPipelineProps this env) =
     [''sle-'' @ env @ ''-infra-artifacts'',
      ''sle-'' @ env @ ''-packaging-bucket'',
      ''sle-'' @ env @ ''-git-infra-conn'',
      ''sle-'' @ env @ ''-infra-codebuild'',
      ''sle-'' @ env @ ''-infra-pipeline'',
      ''sle-'' @ env @ ''-infra-cf'',
      ''sle-'' @ env @ ''-infra-changeset'']"
  by (simp add: pipelineNames_def infraPipelineProps_def)

lemma addedStatements_props:
  "addedStatements (infraPipelineProps this env) =
     codeBuildStatements this env @ codePipelineStatements this env"
  by (simp add: addedStatements_def infraPipelineProps_def)

subsection \<open>How the method and the constructor end\<close>

lemma createInfraPipeline_artifact_rejected:
  assumes "\<not> validateBucketName (''sle-'' @ env @ ''-infra-artifacts'')"
  shows "createInfraPipeline this env =
           Inl \<lparr> thrown = InvalidBucketName (''sle-'' @ env @ ''-infra-artifacts''),
                 declared = [] \<rparr>"
  using assms by (simp add: createInfraPipeline_def Let_def infraPipelineProps_names)

lemma createInfraPipeline_packaging_rejected:
  assumes "validateBucketName (''sle-'' @ env @ ''-infra-artifacts'')"
      and "\<not> validateBucketName (''sle-'' @ env @ ''-packaging-bucket'')"
  shows "createInfraPipeline this env =
           Inl \<lparr> thrown = InvalidBucketName (''sle-'' @ env @ ''-packaging-bucket''),
                 declared = [''InfraArtifactBucket''] \<rparr>"
  using assms by (simp add: createInfraPipeline_def Let_def infraPipelineProps_names)

lemma createInfraPipeline_accepted:
  assumes "validateBucketName (''sle-'' @ env @ ''-infra-artifacts'')"
      and "validateBucketName (''sle-'' @ env @ ''-packaging-bucket'')"
  shows "createInfraPipeline this env = Inr (infraPipelineProps this env)"
  using assms by (simp add: createInfraPipeline_def Let_def infraPipelineProps_names)

lemma InfraStack_artifact_rejected:
  assumes "\<not> validateBucketName (''sle-'' @ env @ ''-infra-artifacts'')"
  shows "InfraStack this env =
           Inl \<lparr> thrown = InvalidBucketName (''sle-'' @ env @ ''-infra-artifacts''),
                 declared = [''Table''] \<rparr>"
  by (simp add: InfraStack_def Let_def createInfraPipeline_artifact_rejected [OF assms])

lemma InfraStack_packaging_rejected:
  assumes "validateBucketName (''sle-'' @ env @ ''-infra-artifacts'')"
      and "\<not> validateBucketName (''sle-'' @ env @ ''-packaging-bucket'')"
  shows "InfraStack this env =
           Inl \<lparr> thrown = InvalidBucketName (''sle-'' @ env @ ''-packaging-bucket''),
                 declared = [''Table'', ''InfraArtifactBucket''] \<rparr>"
  by (simp add: InfraStack_def Let_def createInfraPipeline_packaging_rejected [OF assms])

lemma InfraStack_accepted:
  assumes "validateBucketName (''sle-'' @ env @ ''-infra-artifacts'')"
      and "validateBucketName (''sle-'' @ env @ ''-packaging-bucket'')"
  shows "InfraStack this env =
           Inr \<lparr> construct_id = stack_id this,
                 tableName = ''school-licenses-table'',
                 tableTags = [(''Environment'', env), (''Service'', ''sle''),
                              (''stack'', ''cdk-infra'')],
                 infraPipeline = infraPipelineProps this env \<rparr>"
  by (simp add: InfraStack_def Let_def createInfraPipeline_accepted [OF assms])

lemma InfraStack_Inr:
  assumes "InfraStack this env = Inr s"
  shows "validateBucketName (''sle-'' @ env @ ''-infra-artifacts'')"
    and "validateBucketName (''sle-'' @ env @ ''-packaging-bucket'')"
    and "s = \<lparr> construct_id = stack_id this,
               tableName = ''school-licenses-table'',
               tableTags = [(''Environment'', env), (''Service'', ''sle''),
                            (''stack'', ''cdk-infra'')],
               infraPipeline = infraPipelineProps this env \<rparr>"
proof -
  show a: "validateBucketName (''sle-'' @ env @ ''-infra-artifacts'')"
  proof (rule ccontr)
    assume "\<not> validateBucketName (''sle-'' @ env @ ''-infra-artifacts'')"
    from InfraStack_artifact_rejected [OF this, of this] assms show False by simp
  qed
  show p: "validateBucketName (''sle-'' @ env @ ''-packaging-bucket'')"
  proof (rule ccontr)
    assume "\<not> validateBucketName (''sle-'' @ env @ ''-packaging-bucket'')"
    from InfraStack_packaging_rejected [OF a this, of this] assms show False by simp
  qed
  from InfraStack_accepted [OF a p, of this] assms
  show "s = \<lparr> construct_id = stack_id this,
               tableName = ''school-licenses-table'',
               tableTags = [(''Environment'', env), (''Service'', ''sle''),
                            (''stack'', ''cdk-infra'')],
               infraPipeline = infraPipelineProps this env \<rparr>"
    by simp
qed


lemma names_of_stack:
  "names \<lparr> construct_id = i, tableName = ''school-licenses-table'', tableTags = ts,
           infraPipeline = infraPipelineProps this env \<rparr> =
     [''school-licenses-table'',
      ''sle-'' @ env @ ''-infra-artifacts'',
      ''sle-'' @ env @ ''-packaging-bucket'',
      ''sle-'' @ env @ ''-git-infra-conn'',
      ''sle-'' @ env @ ''-infra-codebuild'',
      ''sle-'' @ env @ ''-infra-pipeline'',
      ''sle-'' @ env @ ''-infra-cf'',
      ''sle-'' @ env @ ''-infra-changeset'']"
  by (simp add: names_def pipelineNames_props)

subsection \<open>The check of bucket names\<close>

lemma too_long_rejected:
  assumes "63 < length n"
  shows "\<not> validateBucketName n"
  using assms by (auto simp: validateBucketName_def)

lemma illegal_char_rejected:
  assumes "c \<in> set n" and "\<not> bucket_char c"
  shows "\<not> validateBucketName n"
  using assms by (auto simp: validateBucketName_def list_all_iff)


lemma split_dot_chars:
  assumes "c \<in> set n"
  shows "c = CHR ''.'' \<or> (\<exists>p \<in> set (split_dot n). c \<in> set p)"
  using assms by (induction n) (auto split: list.splits)

lemma ip_like_chars:
  assumes "ip_like n" and "c \<in> set n"
  shows "is_digit c \<or> c = CHR ''.''"
proof -
  from split_dot_chars [OF assms(2)]
  consider "c = CHR ''.''" | p where "p \<in> set (split_dot n)" "c \<in> set p" by blast
  then show ?thesis
  proof cases
    case 1
    then show ?thesis by simp
  next
    case 2
    from assms(1) 2(1) have "list_all is_digit p"
      by (auto simp: ip_like_def list_all_iff)
    with 2(2) show ?thesis by (auto simp: list_all_iff)
  qed
qed

lemma valid_name_chars:
  assumes "spec_valid_environment env"
  shows "list_all name_char env"
  using assms by (cases env) (simp_all add: spec_valid_environment_def name_char_def)

lemma literal_name_chars:
  "list_all name_char ''school-licenses-table''"
  "list_all name_char ''sle-''"
  "list_all name_char ''-infra-artifacts''"
  "list_all name_char ''-packaging-bucket''"
  "list_all name_char ''-git-infra-conn''"
  "list_all name_char ''-infra-codebuild''"
  "list_all name_char ''-infra-pipeline''"
  "list_all name_char ''-infra-cf''"
  "list_all name_char ''-infra-changeset''"
  by (simp_all add: name_char_def is_lower_def is_digit_def less_eq_char_def)

lemma scoped_name_chars:
  assumes "list_all name_char env" and "list_all name_char suf"
  shows "list_all name_char (''sle-'' @ env @ suf)"
  using assms literal_name_chars(2) by simp

lemma scoped_mentions: "sublist env (''sle-'' @ env @ suf)"
  by (rule sublist_appendI)

lemma name_chars_accepted:
  assumes chars: "list_all name_char n"
      and len: "3 \<le> length n" "length n \<le> 63"
      and edges: "is_lower (hd n)" "is_lower (last n)"
  shows "validateBucketName n"
proof -
  have ne: "n \<noteq> []" using len by auto
  have bucket: "list_all bucket_char n"
    using chars by (auto simp: list_all_iff name_char_def bucket_char_def)
  have nodot: "CHR ''.'' \<notin> set n"
  proof
    assume "CHR ''.'' \<in> set n"
    with chars have "name_char (CHR ''.'')" by (auto simp: list_all_iff)
    then show False
      by (simp add: name_char_def is_lower_def is_digit_def less_eq_char_def)
  qed
  have no_pairs: "\<not> sublist ''.-'' n" "\<not> sublist ''-.'' n" "\<not> sublist ''..'' n"
    using nodot set_mono_sublist [of "''.-''" n] set_mono_sublist [of "''-.''" n]
          set_mono_sublist [of "''..''" n]
    by auto
  have "\<not> ip_like n"
  proof
    assume ip: "ip_like n"
    have "hd n \<in> set n" using ne by simp
    from ip_like_chars [OF ip this] nodot \<open>hd n \<in> set n\<close> have "is_digit (hd n)" by auto
    with edges(1) show False
      by (auto simp: is_digit_def is_lower_def less_eq_char_def)
  qed
  with bucket len edges no_pairs show ?thesis
    by (simp add: validateBucketName_def edge_char_def)
qed

lemma valid_token_bucket_accepted:
  assumes "spec_valid_environment env"
  shows "length env \<le> 43 \<Longrightarrow> validateBucketName (''sle-'' @ env @ ''-infra-artifacts'')"
    and "length env \<le> 42 \<Longrightarrow> validateBucketName (''sle-'' @ env @ ''-packaging-bucket'')"
proof -
  have e: "list_all name_char env" using assms by (rule valid_name_chars)
  have s: "is_lower (CHR ''s'')" "is_lower (CHR ''t'')"
    by (simp_all add: is_lower_def less_eq_char_def)
  show "validateBucketName (''sle-'' @ env @ ''-infra-artifacts'')" if "length env \<le> 43"
  proof (rule name_chars_accepted)
    show "list_all name_char (''sle-'' @ env @ ''-infra-artifacts'')"
      using e literal_name_chars(3) by (rule scoped_name_chars)
    show "3 \<le> length (''sle-'' @ env @ ''-infra-artifacts'')" by simp
    show "length (''sle-'' @ env @ ''-infra-artifacts'') \<le> 63" using that by simp
    show "is_lower (hd (''sle-'' @ env @ ''-infra-artifacts''))" using s by simp
    show "is_lower (last (''sle-'' @ env @ ''-infra-artifacts''))" using s by simp
  qed
  show "validateBucketName (''sle-'' @ env @ ''-packaging-bucket'')" if "length env \<le> 42"
  proof (rule name_chars_accepted)
    show "list_all name_char (''sle-'' @ env @ ''-packaging-bucket'')"
      using e literal_name_chars(4) by (rule scoped_name_chars)
    show "3 \<le> length (''sle-'' @ env @ ''-packaging-bucket'')" by simp
    show "length (''sle-'' @ env @ ''-packaging-bucket'') \<le> 63" using that by simp
    show "is_lower (hd (''sle-'' @ env @ ''-packaging-bucket''))" using s by simp
    show "is_lower (last (''sle-'' @ env @ ''-packaging-bucket''))" using s by simp
  qed
qed

lemma concrete_buckets_accepted:
  "validateBucketName ''sle-dev-infra-artifacts''"
  "validateBucketName ''sle-dev-packaging-bucket''"
  "validateBucketName ''sle-prod-infra-artifacts''"
  "validateBucketName ''sle-prod-packaging-bucket''"
  "validateBucketName ''sle--infra-artifacts''"
  "validateBucketName ''sle--packaging-bucket''"
  "validateBucketName ''sle-1a-infra-artifacts''"
  "validateBucketName ''sle-1a-packaging-bucket''"
  by (simp_all add: validateBucketName_def bucket_char_def edge_char_def is_lower_def
        is_digit_def less_eq_char_def sublist_code ip_like_def)

subsection \<open>Patterns inside and outside the namespace\<close>

lemma namespace_sublist: "sublist (''sle-'' @ env @ ''-'') (p @ ''sle-'' @ env @ ''-'' @ s)"
proof -
  have "p @ ''sle-'' @ env @ ''-'' @ s = p @ (''sle-'' @ env @ ''-'') @ s" by simp
  then show ?thesis by (simp only: sublist_appendI)
qed

lemma sublist_across:
  assumes "c \<notin> set xs"
  shows "sublist xs (a @ c # b) \<longleftrightarrow> sublist xs a \<or> sublist xs b"
proof
  assume "sublist xs (a @ c # b)"
  then consider "sublist xs a" | "sublist xs (c # b)"
    | xs1 xs2 where "xs = xs1 @ xs2" "suffix xs1 a" "prefix xs2 (c # b)"
    unfolding sublist_append by blast
  then show "sublist xs a \<or> sublist xs b"
  proof cases
    case 1
    then show ?thesis by simp
  next
    case 2
    then have "prefix xs (c # b) \<or> sublist xs b" by (simp add: sublist_Cons_right)
    moreover have "xs = []" if "prefix xs (c # b)"
      using that assms by (cases xs) auto
    ultimately show ?thesis by auto
  next
    case 3
    have "xs2 = []" using 3(3) 3(1) assms by (cases xs2) auto
    with 3(1,2) have "suffix xs a" by simp
    then show ?thesis by (simp add: suffix_imp_sublist)
  qed
next
  assume "sublist xs a \<or> sublist xs b"
  then show "sublist xs (a @ c # b)"
  proof
    assume "sublist xs a"
    then obtain ps ss where "a = ps @ xs @ ss" by (auto simp: sublist_def)
    then have "a @ c # b = ps @ xs @ (ss @ c # b)" by simp
    then show ?thesis unfolding sublist_def by blast
  next
    assume "sublist xs b"
    then obtain ps ss where "b = ps @ xs @ ss" by (auto simp: sublist_def)
    then have "a @ c # b = (a @ c # ps) @ xs @ ss" by simp
    then show ?thesis unfolding sublist_def by blast
  qed
qed

lemma no_prefix_between_colons:
  assumes r: "\<not> sublist ''sle-'' r" and a: "\<not> sublist ''sle-'' a"
      and h: "\<not> sublist ''sle-'' h" and t: "\<not> sublist ''sle-'' t"
  shows "\<not> sublist ''sle-'' (h @ '':'' @ r @ '':'' @ a @ '':'' @ t)"
proof -
  have c: "CHR '':'' \<notin> set ''sle-''" by simp
  have "sublist ''sle-'' (h @ CHR '':'' # (r @ CHR '':'' # (a @ CHR '':'' # t)))
          \<longleftrightarrow> sublist ''sle-'' h \<or> sublist ''sle-'' r \<or> sublist ''sle-'' a \<or> sublist ''sle-'' t"
    by (simp only: sublist_across [OF c])
  with assms show ?thesis by simp
qed

lemma no_namespace_without_prefix:
  assumes "\<not> sublist ''sle-'' p"
  shows "\<not> in_namespace env (Pattern p)"
proof
  assume "in_namespace env (Pattern p)"
  then have "sublist (''sle-'' @ env @ ''-'') p" by simp
  moreover have "sublist ''sle-'' (''sle-'' @ env @ ''-'')" by (rule sublist_append_rightI)
  ultimately have "sublist ''sle-'' p" using sublist_order.order_trans by blast
  with assms show False by simp
qed

lemma namespace_contains_environment:
  assumes "in_namespace env r"
  shows "\<exists>p. r = Pattern p \<and> sublist env p"
proof (cases r)
  case (Pattern p)
  with assms have a: "sublist (''sle-'' @ env @ ''-'') p" by simp
  have "sublist env (''sle-'' @ env @ ''-'')" by (rule sublist_appendI)
  with a have "sublist env p" using sublist_order.order_trans by blast
  with Pattern show ?thesis by simp
qed (use assms in simp_all)

lemma scoped_patterns:
  "namespace_or_attribute env (Pattern (''arn:aws:logs:'' @ region this @ '':'' @ account this
     @ '':log-group:/aws/codebuild/sle-'' @ env @ ''-infra-codebuild*''))"
  "namespace_or_attribute env (Pattern (''arn:aws:iam::'' @ account this @ '':role/sle-'' @ env @ ''-*''))"
  "namespace_or_attribute env (Pattern (''arn:aws:cloudformation:'' @ region this @ '':'' @ account this
     @ '':stack/sle-'' @ env @ ''-*''))"
  "namespace_or_attribute env (Pattern (''arn:aws:codebuild:'' @ region this @ '':'' @ account this
     @ '':project/sle-'' @ env @ ''-*''))"
  "namespace_or_attribute env (Pattern (''arn:aws:codepipeline:'' @ region this @ '':'' @ account this
     @ '':sle-'' @ env @ ''-*''))"
  using namespace_sublist [of env "''arn:aws:logs:'' @ region this @ '':'' @ account this
                                     @ '':log-group:/aws/codebuild/''" "''infra-codebuild*''"]
        namespace_sublist [of env "''arn:aws:iam::'' @ account this @ '':role/''" "''*''"]
        namespace_sublist [of env "''arn:aws:cloudformation:'' @ region this @ '':''
                                     @ account this @ '':stack/''" "''*''"]
        namespace_sublist [of env "''arn:aws:codebuild:'' @ region this @ '':''
                                     @ account this @ '':project/''" "''*''"]
        namespace_sublist [of env "''arn:aws:codepipeline:'' @ region this @ '':''
                                     @ account this @ '':''" "''*''"]
  by (simp_all add: namespace_or_attribute_def)

lemma scoped_bucket_patterns:
  "namespace_or_attribute env (Pattern (''arn:aws:s3:::sle-'' @ env @ ''-*''))"
  "namespace_or_attribute env (Pattern (''arn:aws:s3:::sle-'' @ env @ ''-*/*''))"
  using namespace_sublist [of env "''arn:aws:s3:::''" "''*''"]
        namespace_sublist [of env "''arn:aws:s3:::''" "''*/*''"]
  by (simp_all add: namespace_or_attribute_def)

lemma scoped_attributes:
  "namespace_or_attribute env (ArnOf InfraArtifactBucket)" "namespace_or_attribute env (ObjectsOf InfraArtifactBucket)"
  "namespace_or_attribute env (ArnOf InfraPackagingBucket)" "namespace_or_attribute env (ObjectsOf InfraPackagingBucket)"
  "namespace_or_attribute env (ArnOf InfraGitHubConnection)" "namespace_or_attribute env (ArnOf InfraCodeBuildProject)"
  by (simp_all add: namespace_or_attribute_def)

lemma unscoped_star: "\<not> namespace_or_attribute env (Pattern ''*'')"
  by (simp add: namespace_or_attribute_def sublist_code)

lemma unscoped_patterns:
  assumes "\<not> sublist ''sle-'' (region this)" and "\<not> sublist ''sle-'' (account this)"
  shows "\<not> namespace_or_attribute env (Pattern (''arn:aws:dynamodb:'' @ region this @ '':'' @ account this
           @ '':table/school-licenses-table''))"
    and "\<not> namespace_or_attribute env (Pattern (''arn:aws:codestar-connections:'' @ region this @ '':''
           @ account this @ '':*''))"
    and "\<not> namespace_or_attribute env (Pattern (''arn:aws:ssm:'' @ region this @ '':'' @ account this
           @ '':parameter/cdk-bootstrap*''))"
proof -
  have lits: "\<not> sublist ''sle-'' ''arn:aws:dynamodb''"
             "\<not> sublist ''sle-'' ''table/school-licenses-table''"
             "\<not> sublist ''sle-'' ''arn:aws:codestar-connections''"
             "\<not> sublist ''sle-'' ''*''"
             "\<not> sublist ''sle-'' ''arn:aws:ssm''"
             "\<not> sublist ''sle-'' ''parameter/cdk-bootstrap*''"
    by (simp_all add: sublist_code)
  have d: "\<not> sublist ''sle-'' (''arn:aws:dynamodb'' @ '':'' @ region this @ '':''
             @ account this @ '':'' @ ''table/school-licenses-table'')"
    using assms lits(1,2) by (rule no_prefix_between_colons)
  have c: "\<not> sublist ''sle-'' (''arn:aws:codestar-connections'' @ '':'' @ region this @ '':''
             @ account this @ '':'' @ ''*'')"
    using assms lits(3,4) by (rule no_prefix_between_colons)
  have s: "\<not> sublist ''sle-'' (''arn:aws:ssm'' @ '':'' @ region this @ '':''
             @ account this @ '':'' @ ''parameter/cdk-bootstrap*'')"
    using assms lits(5,6) by (rule no_prefix_between_colons)
  show "\<not> namespace_or_attribute env (Pattern (''arn:aws:dynamodb:'' @ region this @ '':'' @ account this
           @ '':table/school-licenses-table''))"
    using no_namespace_without_prefix [OF d, of env] by (simp add: namespace_or_attribute_def)
  show "\<not> namespace_or_attribute env (Pattern (''arn:aws:codestar-connections:'' @ region this @ '':''
           @ account this @ '':*''))"
    using no_namespace_without_prefix [OF c, of env] by (simp add: namespace_or_attribute_def)
  show "\<not> namespace_or_attribute env (Pattern (''arn:aws:ssm:'' @ region this @ '':'' @ account this
           @ '':parameter/cdk-bootstrap*''))"
    using no_namespace_without_prefix [OF s, of env] by (simp add: namespace_or_attribute_def)
qed

lemma five_exceptions_added:
  "set (five_exceptions this) \<subseteq> set (codeBuildStatements this env @ codePipelineStatements this env)"
  by (simp add: five_exceptions_def codeBuildStatements_def codePipelineStatements_def)

lemma others_scoped:
  "list_all (\<lambda>s. s \<in> set (five_exceptions this) \<or> list_all (namespace_or_attribute env) (resources s))
     (codeBuildStatements this env @ codePipelineStatements this env)"
  using scoped_patterns [of env this] scoped_bucket_patterns [of env] scoped_attributes [of env]
  by (simp add: codeBuildStatements_def codePipelineStatements_def five_exceptions_def)

lemma exactly_five_unscoped:
  assumes "\<not> sublist ''sle-'' (region this)" and "\<not> sublist ''sle-'' (account this)"
  shows "unscoped env (codeBuildStatements this env @ codePipelineStatements this env)
           = five_exceptions this"
  using scoped_patterns [of env this] scoped_bucket_patterns [of env] scoped_attributes [of env] unscoped_star [of env]
        unscoped_patterns [OF assms, of env]
  by (simp add: unscoped_def codeBuildStatements_def codePipelineStatements_def
        five_exceptions_def)

lemma attribute_statements_added:
  "filter (\<lambda>s. list_ex own_attribute (resources s))
     (codeBuildStatements this env @ codePipelineStatements this env) = attribute_statements"
  by (simp add: codeBuildStatements_def codePipelineStatements_def attribute_statements_def)

section \<open>Validation of the environment\<close>




section \<open>Scope of the permissions\<close>

text \<open>
  C2 as stated fails. For the environment "dev" the source adds to the pipeline role the
  statement \<^verbatim>\<open>DynamoDB\<close> on the resource
  \<^verbatim>\<open>arn:aws:dynamodb:us-east-1:123456789012:table/school-licenses-table\<close>, which does not
  contain "dev", and the statement is none of the three documented exceptions: none of its
  actions is about change sets, template validation or connections.
\<close>

theorem C2_counterexample:
  "\<lparr> sid = Some ''DynamoDB'',
     actions = [''dynamodb:CreateTable'', ''dynamodb:UpdateTable'', ''dynamodb:DescribeTable'',
                ''dynamodb:DeleteTable'', ''dynamodb:TagResource'', ''dynamodb:UntagResource'',
                ''dynamodb:UpdateContinuousBackups'', ''dynamodb:DescribeContinuousBackups''],
     resources =
       [Pattern ''arn:aws:dynamodb:us-east-1:123456789012:table/school-licenses-table''] \<rparr>
     \<in> set (infraCodePipelineExecutionRole_addToPolicy (infraPipelineProps example_this ''dev''))
   \<and> \<not> sublist ''dev'' ''arn:aws:dynamodb:us-east-1:123456789012:table/school-licenses-table''
   \<and> \<not> spec_documented_exception
         \<lparr> sid = Some ''DynamoDB'',
           actions = [''dynamodb:CreateTable'', ''dynamodb:UpdateTable'',
                      ''dynamodb:DescribeTable'', ''dynamodb:DeleteTable'',
                      ''dynamodb:TagResource'', ''dynamodb:UntagResource'',
                      ''dynamodb:UpdateContinuousBackups'',
                      ''dynamodb:DescribeContinuousBackups''],
           resources =
             [Pattern ''arn:aws:dynamodb:us-east-1:123456789012:table/school-licenses-table''] \<rparr>
   \<and> createInfraPipeline example_this ''dev'' = Inr (infraPipelineProps example_this ''dev'')"
proof -
  have m: "\<lparr> sid = Some ''DynamoDB'',
     actions = [''dynamodb:CreateTable'', ''dynamodb:UpdateTable'', ''dynamodb:DescribeTable'',
                ''dynamodb:DeleteTable'', ''dynamodb:TagResource'', ''dynamodb:UntagResource'',
                ''dynamodb:UpdateContinuousBackups'', ''dynamodb:DescribeContinuousBackups''],
     resources =
       [Pattern ''arn:aws:dynamodb:us-east-1:123456789012:table/school-licenses-table''] \<rparr>
     \<in> set (infraCodePipelineExecutionRole_addToPolicy (infraPipelineProps example_this ''dev''))"
    by (simp add: infraPipelineProps_def codePipelineStatements_def)
  have n: "\<not> sublist ''dev''
         ''arn:aws:dynamodb:us-east-1:123456789012:table/school-licenses-table''"
    by (simp add: sublist_code)
  have x: "\<not> spec_documented_exception
         \<lparr> sid = Some ''DynamoDB'',
           actions = [''dynamodb:CreateTable'', ''dynamodb:UpdateTable'',
                      ''dynamodb:DescribeTable'', ''dynamodb:DeleteTable'',
                      ''dynamodb:TagResource'', ''dynamodb:UntagResource'',
                      ''dynamodb:UpdateContinuousBackups'',
                      ''dynamodb:DescribeContinuousBackups''],
           resources =
             [Pattern ''arn:aws:dynamodb:us-east-1:123456789012:table/school-licenses-table''] \<rparr>"
    by (simp add: spec_documented_exception_def)
  have r: "createInfraPipeline example_this ''dev'' = Inr (infraPipelineProps example_this ''dev'')"
    using createInfraPipeline_accepted [of "''dev''" example_this] concrete_buckets_accepted
    by simp
  from m n x r show ?thesis by blast
qed

text \<open>
  C2 (amended). Of the statements that the source adds to the two roles with
  \<^verbatim>\<open>addToPolicy\<close>, for every environment, region and account, every statement other than
  the five below has only resources of two kinds: a pattern that contains \<^verbatim>\<open>sle-<env>-\<close>,
  hence the environment, or the ARN attribute of a bucket, of the connection or of the build
  project that the stack itself declares (a token resolved at deployment, with no text in
  the source; exactly three statements have such resources). The five exceptions are, as the
  source writes them: template validation on \<^verbatim>\<open>*\<close>, the change-set actions on \<^verbatim>\<open>*\<close>,
  the statement \<^verbatim>\<open>DynamoDB\<close> on the shared table, connection creation on
  \<^verbatim>\<open>arn:aws:codestar-connections:<region>:<account>:*\<close>, and the statement
  \<^verbatim>\<open>SSMParameterStoreAccess\<close> on \<^verbatim>\<open>parameter/cdk-bootstrap*\<close>. When neither the region nor
  the account contains \<^verbatim>\<open>sle-\<close>, these five are exactly the statements with a resource
  outside the namespace. The statements that the library grants to the roles on its own are
  not covered.
\<close>

theorem C2_scoped_except_five:
  "list_all (\<lambda>s. s \<in> set (five_exceptions this)
                 \<or> list_all (namespace_or_attribute env) (resources s))
     (addedStatements (infraPipelineProps this env))
   \<and> (\<forall>r. in_namespace env r \<longrightarrow> (\<exists>p. r = Pattern p \<and> sublist env p))
   \<and> filter (\<lambda>s. list_ex own_attribute (resources s))
         (addedStatements (infraPipelineProps this env)) = attribute_statements
   \<and> set (five_exceptions this) \<subseteq> set (addedStatements (infraPipelineProps this env))
   \<and> (\<not> sublist ''sle-'' (region this) \<and> \<not> sublist ''sle-'' (account this) \<longrightarrow>
        unscoped env (addedStatements (infraPipelineProps this env)) = five_exceptions this)
   \<and> (\<forall>p. createInfraPipeline this env = Inr p \<longrightarrow> p = infraPipelineProps this env)"
proof (intro conjI impI allI)
  show "list_all (\<lambda>s. s \<in> set (five_exceptions this)
                      \<or> list_all (namespace_or_attribute env) (resources s))
         (addedStatements (infraPipelineProps this env))"
    unfolding addedStatements_props by (rule others_scoped)
  show "set (five_exceptions this) \<subseteq> set (addedStatements (infraPipelineProps this env))"
    unfolding addedStatements_props by (rule five_exceptions_added)
  show "filter (\<lambda>s. list_ex own_attribute (resources s))
         (addedStatements (infraPipelineProps this env)) = attribute_statements"
    unfolding addedStatements_props by (rule attribute_statements_added)
next
  fix r
  assume "in_namespace env r"
  then show "\<exists>p. r = Pattern p \<and> sublist env p"
    by (rule namespace_contains_environment)
next
  assume "\<not> sublist ''sle-'' (region this) \<and> \<not> sublist ''sle-'' (account this)"
  then show "unscoped env (addedStatements (infraPipelineProps this env)) = five_exceptions this"
    unfolding addedStatements_props by (simp add: exactly_five_unscoped)
next
  fix p
  assume "createInfraPipeline this env = Inr p"
  then show "p = infraPipelineProps this env"
    by (simp add: createInfraPipeline_def Let_def split: if_splits)
qed

text \<open>
  At the environment "dev" in the region us-east-1: the method returns, and the statements
  that it has added with a resource outside the namespace are the five, in the order of the
  source.
\<close>

theorem C2_scoped_except_five_witness:
  "\<not> sublist ''sle-'' (region example_this) \<and> \<not> sublist ''sle-'' (account example_this)
   \<and> createInfraPipeline example_this ''dev'' = Inr (infraPipelineProps example_this ''dev'')
   \<and> map sid (unscoped ''dev'' (addedStatements (infraPipelineProps example_this ''dev'')))
       = [None, Some ''PipelineChangeSetPermission'', Some ''DynamoDB'',
          Some ''ApplicationPipelinePermissions'', Some ''SSMParameterStoreAccess'']
   \<and> map resources (unscoped ''dev'' (addedStatements (infraPipelineProps example_this ''dev'')))
       = [[Pattern ''*''], [Pattern ''*''],
          [Pattern ''arn:aws:dynamodb:us-east-1:123456789012:table/school-licenses-table''],
          [Pattern ''arn:aws:codestar-connections:us-east-1:123456789012:*''],
          [Pattern ''arn:aws:ssm:us-east-1:123456789012:parameter/cdk-bootstrap*'']]"
proof -
  have h: "\<not> sublist ''sle-'' (region example_this) \<and> \<not> sublist ''sle-'' (account example_this)"
    by (simp add: sublist_code)
  have r: "createInfraPipeline example_this ''dev'' = Inr (infraPipelineProps example_this ''dev'')"
    using createInfraPipeline_accepted [of "''dev''" example_this] concrete_buckets_accepted
    by simp
  from h C2_scoped_except_five [of example_this "''dev''"]
  have u: "unscoped ''dev'' (addedStatements (infraPipelineProps example_this ''dev''))
             = five_exceptions example_this"
    by blast
  have "map sid (five_exceptions example_this)
       = [None, Some ''PipelineChangeSetPermission'', Some ''DynamoDB'',
          Some ''ApplicationPipelinePermissions'', Some ''SSMParameterStoreAccess'']"
       "map resources (five_exceptions example_this)
       = [[Pattern ''*''], [Pattern ''*''],
          [Pattern ''arn:aws:dynamodb:us-east-1:123456789012:table/school-licenses-table''],
          [Pattern ''arn:aws:codestar-connections:us-east-1:123456789012:*''],
          [Pattern ''arn:aws:ssm:us-east-1:123456789012:parameter/cdk-bootstrap*'']]"
    by (simp_all add: five_exceptions_def)
  with h r u show ?thesis by simp
qed

section \<open>Names\<close>

text \<open>
  C3. Deriving for the environment "dev" yields the table name "school-licenses-table", the
  artifact bucket "sle-dev-infra-artifacts", the packaging bucket "sle-dev-packaging-bucket",
  the CodeBuild project "sle-dev-infra-codebuild" and the pipeline "sle-dev-infra-pipeline".
\<close>

theorem C3_derive_dev_names:
  "\<exists>s. InfraStack this ''dev'' = Inr s
     \<and> tableName s = ''school-licenses-table''
     \<and> artifactBucketName (infraPipeline s) = ''sle-dev-infra-artifacts''
     \<and> packagingBucketName (infraPipeline s) = ''sle-dev-packaging-bucket''
     \<and> projectName (infraPipeline s) = ''sle-dev-infra-codebuild''
     \<and> pipelineName (infraPipeline s) = ''sle-dev-infra-pipeline''"
  using InfraStack_accepted [of "''dev''" this] concrete_buckets_accepted
  by (simp add: infraPipelineProps_def)

text \<open>
  C4. For every environment token the name of the data table is the fixed string
  "school-licenses-table": every stack that the constructor returns has it, whatever the
  environment. Deriving for "prod" yields the same table name as deriving for "dev", and
  every other name with "prod" in the place of "dev".
\<close>

theorem C4_table_name_fixed:
  "(\<forall>s. InfraStack this env = Inr s \<longrightarrow> tableName s = ''school-licenses-table'')
   \<and> (\<exists>d p. InfraStack this ''dev'' = Inr d \<and> InfraStack this ''prod'' = Inr p
        \<and> tableName p = tableName d
        \<and> names d =
            [''school-licenses-table'', ''sle-dev-infra-artifacts'',
             ''sle-dev-packaging-bucket'', ''sle-dev-git-infra-conn'',
             ''sle-dev-infra-codebuild'', ''sle-dev-infra-pipeline'',
             ''sle-dev-infra-cf'', ''sle-dev-infra-changeset'']
        \<and> names p =
            [''school-licenses-table'', ''sle-prod-infra-artifacts'',
             ''sle-prod-packaging-bucket'', ''sle-prod-git-infra-conn'',
             ''sle-prod-infra-codebuild'', ''sle-prod-infra-pipeline'',
             ''sle-prod-infra-cf'', ''sle-prod-infra-changeset''])"
proof
  show "\<forall>s. InfraStack this env = Inr s \<longrightarrow> tableName s = ''school-licenses-table''"
  proof (intro allI impI)
    fix s
    assume "InfraStack this env = Inr s"
    from InfraStack_Inr(3) [OF this] show "tableName s = ''school-licenses-table''" by simp
  qed
  show "\<exists>d p. InfraStack this ''dev'' = Inr d \<and> InfraStack this ''prod'' = Inr p
        \<and> tableName p = tableName d
        \<and> names d =
            [''school-licenses-table'', ''sle-dev-infra-artifacts'',
             ''sle-dev-packaging-bucket'', ''sle-dev-git-infra-conn'',
             ''sle-dev-infra-codebuild'', ''sle-dev-infra-pipeline'',
             ''sle-dev-infra-cf'', ''sle-dev-infra-changeset'']
        \<and> names p =
            [''school-licenses-table'', ''sle-prod-infra-artifacts'',
             ''sle-prod-packaging-bucket'', ''sle-prod-git-infra-conn'',
             ''sle-prod-infra-codebuild'', ''sle-prod-infra-pipeline'',
             ''sle-prod-infra-cf'', ''sle-prod-infra-changeset'']"
    using InfraStack_accepted [of "''dev''" this] InfraStack_accepted [of "''prod''" this]
          concrete_buckets_accepted
    by (simp add: names_def pipelineNames_def infraPipelineProps_def)
qed

theorem C4_table_name_fixed_witness:
  "\<exists>s. InfraStack example_this ''prod'' = Inr s \<and> tableName s = ''school-licenses-table''"
proof -
  obtain s where s: "InfraStack example_this ''prod'' = Inr s"
    using InfraStack_accepted [of "''prod''" example_this] concrete_buckets_accepted by simp
  with C4_table_name_fixed [of example_this "''prod''"]
  have "tableName s = ''school-licenses-table''" by blast
  with s show ?thesis by blast
qed

text \<open>
  C5. For environment tokens \<open>e1 \<noteq> e2\<close>, each environment-scoped name (artifact bucket,
  packaging bucket, connection, CodeBuild project, pipeline, stack, change set) derived for
  \<open>e1\<close> differs from the same name derived for \<open>e2\<close>. It holds for all strings, so for the
  valid tokens, and whatever the two stack objects are: of the names as the method computes
  them, and so of the names of any two pipelines that the method returns.
\<close>

theorem C5_no_cross_environment_collision:
  assumes "e1 \<noteq> e2"
  shows "artifactBucketName (infraPipelineProps this1 e1)
           \<noteq> artifactBucketName (infraPipelineProps this2 e2)
       \<and> packagingBucketName (infraPipelineProps this1 e1)
           \<noteq> packagingBucketName (infraPipelineProps this2 e2)
       \<and> connectionName (infraPipelineProps this1 e1)
           \<noteq> connectionName (infraPipelineProps this2 e2)
       \<and> projectName (infraPipelineProps this1 e1)
           \<noteq> projectName (infraPipelineProps this2 e2)
       \<and> pipelineName (infraPipelineProps this1 e1)
           \<noteq> pipelineName (infraPipelineProps this2 e2)
       \<and> stackName (infraPipelineProps this1 e1)
           \<noteq> stackName (infraPipelineProps this2 e2)
       \<and> changeSetName (infraPipelineProps this1 e1)
           \<noteq> changeSetName (infraPipelineProps this2 e2)
       \<and> (\<forall>p1 p2. createInfraPipeline this1 e1 = Inr p1 \<and> createInfraPipeline this2 e2 = Inr p2
            \<longrightarrow> artifactBucketName p1 \<noteq> artifactBucketName p2
              \<and> packagingBucketName p1 \<noteq> packagingBucketName p2
              \<and> connectionName p1 \<noteq> connectionName p2
              \<and> projectName p1 \<noteq> projectName p2
              \<and> pipelineName p1 \<noteq> pipelineName p2
              \<and> stackName p1 \<noteq> stackName p2
              \<and> changeSetName p1 \<noteq> changeSetName p2)"
proof -
  have pure: "artifactBucketName (infraPipelineProps this1 e1)
           \<noteq> artifactBucketName (infraPipelineProps this2 e2)
       \<and> packagingBucketName (infraPipelineProps this1 e1)
           \<noteq> packagingBucketName (infraPipelineProps this2 e2)
       \<and> connectionName (infraPipelineProps this1 e1)
           \<noteq> connectionName (infraPipelineProps this2 e2)
       \<and> projectName (infraPipelineProps this1 e1)
           \<noteq> projectName (infraPipelineProps this2 e2)
       \<and> pipelineName (infraPipelineProps this1 e1)
           \<noteq> pipelineName (infraPipelineProps this2 e2)
       \<and> stackName (infraPipelineProps this1 e1)
           \<noteq> stackName (infraPipelineProps this2 e2)
       \<and> changeSetName (infraPipelineProps this1 e1)
           \<noteq> changeSetName (infraPipelineProps this2 e2)"
    using assms by (simp add: infraPipelineProps_names)
  have ret: "p = infraPipelineProps this e" if "createInfraPipeline this e = Inr p" for this e p
    using that by (simp add: createInfraPipeline_def Let_def split: if_splits)
  from pure ret show ?thesis by blast
qed

theorem C5_no_cross_environment_collision_witness:
  "''dev'' \<noteq> ''prod''
   \<and> createInfraPipeline example_this ''dev'' = Inr (infraPipelineProps example_this ''dev'')
   \<and> createInfraPipeline example_this ''prod'' = Inr (infraPipelineProps example_this ''prod'')
   \<and> artifactBucketName (infraPipelineProps example_this ''dev'')
       \<noteq> artifactBucketName (infraPipelineProps example_this ''prod'')
   \<and> packagingBucketName (infraPipelineProps example_this ''dev'')
       \<noteq> packagingBucketName (infraPipelineProps example_this ''prod'')
   \<and> connectionName (infraPipelineProps example_this ''dev'')
       \<noteq> connectionName (infraPipelineProps example_this ''prod'')
   \<and> projectName (infraPipelineProps example_this ''dev'')
       \<noteq> projectName (infraPipelineProps example_this ''prod'')
   \<and> pipelineName (infraPipelineProps example_this ''dev'')
       \<noteq> pipelineName (infraPipelineProps example_this ''prod'')
   \<and> stackName (infraPipelineProps example_this ''dev'')
       \<noteq> stackName (infraPipelineProps example_this ''prod'')
   \<and> changeSetName (infraPipelineProps example_this ''dev'')
       \<noteq> changeSetName (infraPipelineProps example_this ''prod'')"
proof -
  have h: "''dev'' \<noteq> ''prod''" by simp
  have d: "createInfraPipeline example_this ''dev'' = Inr (infraPipelineProps example_this ''dev'')"
    using createInfraPipeline_accepted [of "''dev''" example_this] concrete_buckets_accepted
    by simp
  have p: "createInfraPipeline example_this ''prod'' = Inr (infraPipelineProps example_this ''prod'')"
    using createInfraPipeline_accepted [of "''prod''" example_this] concrete_buckets_accepted
    by simp
  show ?thesis
    using h d p C5_no_cross_environment_collision [OF h, of example_this example_this] by blast
qed

section \<open>Limits of the platform on names\<close>

text \<open>
  C6 as stated fails. The token of 43 letters "a" is accepted by the input constraint, and
  the packaging bucket name derived for it has 64 characters, more than the 63 allowed: not
  every accepted token gives names within the limits.
\<close>

theorem C6_counterexample:
  "spec_valid_environment ''aaaaaaaaaaaaaaaaaaaaaaaaaaaaaaaaaaaaaaaaaaa''
   \<and> length (packagingBucketName
        (infraPipelineProps example_this ''aaaaaaaaaaaaaaaaaaaaaaaaaaaaaaaaaaaaaaaaaaa'')) = 64
   \<and> \<not> spec_bucket_name_ok (packagingBucketName
        (infraPipelineProps example_this ''aaaaaaaaaaaaaaaaaaaaaaaaaaaaaaaaaaaaaaaaaaa''))"
  by (simp add: spec_valid_environment_def name_char_def is_lower_def less_eq_char_def
        infraPipelineProps_names spec_bucket_name_ok_def)

text \<open>
  C6 (amended). For every environment token accepted by \<^verbatim>\<open>^[a-z][a-z0-9-]*$\<close>, every
  derived name consists of lower-case letters, digits and hyphens only and contains the whole
  token. For a token of at most 42 characters both bucket names are within the limits of a
  bucket name. For a longer token a bucket name has more than 63 characters, and the
  constructor reports it as a build-time validation failure: it fails in the bucket
  constructor, at the packaging bucket for a token of 43 characters and at the artifact
  bucket beyond, with the error of the library (the code has no \<open>NameTooLong\<close> of its own)
  that carries the whole name. Nothing is truncated.
\<close>

theorem C6_limits_or_build_failure:
  assumes "spec_valid_environment env"
  shows "list_all (list_all name_char) (pipelineNames (infraPipelineProps this env))
     \<and> list_all (sublist env) (pipelineNames (infraPipelineProps this env))
     \<and> length (artifactBucketName (infraPipelineProps this env)) = length env + 20
     \<and> length (packagingBucketName (infraPipelineProps this env)) = length env + 21
     \<and> (length env \<le> 42 \<longrightarrow>
          spec_bucket_name_ok (artifactBucketName (infraPipelineProps this env))
          \<and> spec_bucket_name_ok (packagingBucketName (infraPipelineProps this env)))
     \<and> (length env = 43 \<longrightarrow>
          InfraStack this env =
            Inl \<lparr> thrown = InvalidBucketName (''sle-'' @ env @ ''-packaging-bucket''),
                  declared = [''Table'', ''InfraArtifactBucket''] \<rparr>)
     \<and> (43 < length env \<longrightarrow>
          InfraStack this env =
            Inl \<lparr> thrown = InvalidBucketName (''sle-'' @ env @ ''-infra-artifacts''),
                  declared = [''Table''] \<rparr>)
     \<and> (\<forall>s. InfraStack this env = Inr s \<longrightarrow>
          length env \<le> 42 \<and> infraPipeline s = infraPipelineProps this env
          \<and> list_all (list_all name_char) (names s))"
proof -
  have e: "list_all name_char env" using assms by (rule valid_name_chars)
  have chars: "list_all (list_all name_char) (pipelineNames (infraPipelineProps this env))"
    unfolding pipelineNames_props using e literal_name_chars scoped_name_chars by simp
  have whole: "list_all (sublist env) (pipelineNames (infraPipelineProps this env))"
    unfolding pipelineNames_props using scoped_mentions [of env] by simp
  have la: "length (artifactBucketName (infraPipelineProps this env)) = length env + 20"
    by (simp add: infraPipelineProps_names)
  have lp: "length (packagingBucketName (infraPipelineProps this env)) = length env + 21"
    by (simp add: infraPipelineProps_names)
  have ca: "list_all name_char (artifactBucketName (infraPipelineProps this env))"
    unfolding infraPipelineProps_names using e literal_name_chars(3) by (rule scoped_name_chars)
  have cp: "list_all name_char (packagingBucketName (infraPipelineProps this env))"
    unfolding infraPipelineProps_names using e literal_name_chars(4) by (rule scoped_name_chars)
  have short: "spec_bucket_name_ok (artifactBucketName (infraPipelineProps this env))
          \<and> spec_bucket_name_ok (packagingBucketName (infraPipelineProps this env))"
    if "length env \<le> 42"
    unfolding spec_bucket_name_ok_def using ca cp la lp that by simp
  have at43: "InfraStack this env =
            Inl \<lparr> thrown = InvalidBucketName (''sle-'' @ env @ ''-packaging-bucket''),
                  declared = [''Table'', ''InfraArtifactBucket''] \<rparr>"
    if "length env = 43"
  proof (rule InfraStack_packaging_rejected)
    show "validateBucketName (''sle-'' @ env @ ''-infra-artifacts'')"
      using valid_token_bucket_accepted(1) [OF assms] that by simp
    show "\<not> validateBucketName (''sle-'' @ env @ ''-packaging-bucket'')"
      by (rule too_long_rejected) (simp add: that)
  qed
  have beyond: "InfraStack this env =
            Inl \<lparr> thrown = InvalidBucketName (''sle-'' @ env @ ''-infra-artifacts''),
                  declared = [''Table''] \<rparr>"
    if "43 < length env"
  proof (rule InfraStack_artifact_rejected)
    show "\<not> validateBucketName (''sle-'' @ env @ ''-infra-artifacts'')"
      by (rule too_long_rejected) (use that in simp)
  qed
  have returned: "length env \<le> 42 \<and> infraPipeline s = infraPipelineProps this env
          \<and> list_all (list_all name_char) (names s)"
    if r: "InfraStack this env = Inr s" for s
  proof -
    have "length env \<le> 42"
    proof (rule ccontr)
      assume "\<not> length env \<le> 42"
      then consider "length env = 43" | "43 < length env" by linarith
      then show False using at43 beyond r by cases simp_all
    qed
    moreover have "infraPipeline s = infraPipelineProps this env"
      unfolding InfraStack_Inr(3) [OF r] by simp
    moreover have "list_all (list_all name_char) (names s)"
      unfolding InfraStack_Inr(3) [OF r] names_of_stack
      using e literal_name_chars scoped_name_chars by simp
    ultimately show ?thesis by blast
  qed
  from chars whole la lp short at43 beyond returned show ?thesis by blast
qed

text \<open>
  The tokens "dev", 43 letters "a" and 44 letters "a": names within the limits, a failure at
  the packaging bucket, a failure at the artifact bucket.
\<close>

theorem C6_limits_or_build_failure_witness:
  "spec_valid_environment ''dev''
   \<and> spec_bucket_name_ok (artifactBucketName (infraPipelineProps example_this ''dev''))
   \<and> spec_bucket_name_ok (packagingBucketName (infraPipelineProps example_this ''dev''))
   \<and> map_sum thrown names (InfraStack example_this ''dev'') =
       Inr [''school-licenses-table'', ''sle-dev-infra-artifacts'', ''sle-dev-packaging-bucket'',
            ''sle-dev-git-infra-conn'', ''sle-dev-infra-codebuild'', ''sle-dev-infra-pipeline'',
            ''sle-dev-infra-cf'', ''sle-dev-infra-changeset'']
   \<and> spec_valid_environment ''aaaaaaaaaaaaaaaaaaaaaaaaaaaaaaaaaaaaaaaaaaa''
   \<and> InfraStack example_this ''aaaaaaaaaaaaaaaaaaaaaaaaaaaaaaaaaaaaaaaaaaa'' =
       Inl \<lparr> thrown = InvalidBucketName
                ''sle-aaaaaaaaaaaaaaaaaaaaaaaaaaaaaaaaaaaaaaaaaaa-packaging-bucket'',
             declared = [''Table'', ''InfraArtifactBucket''] \<rparr>
   \<and> spec_valid_environment ''aaaaaaaaaaaaaaaaaaaaaaaaaaaaaaaaaaaaaaaaaaaa''
   \<and> InfraStack example_this ''aaaaaaaaaaaaaaaaaaaaaaaaaaaaaaaaaaaaaaaaaaaa'' =
       Inl \<lparr> thrown = InvalidBucketName
                ''sle-aaaaaaaaaaaaaaaaaaaaaaaaaaaaaaaaaaaaaaaaaaaa-infra-artifacts'',
             declared = [''Table''] \<rparr>"
proof -
  have v: "spec_valid_environment ''dev''"
          "spec_valid_environment ''aaaaaaaaaaaaaaaaaaaaaaaaaaaaaaaaaaaaaaaaaaa''"
          "spec_valid_environment ''aaaaaaaaaaaaaaaaaaaaaaaaaaaaaaaaaaaaaaaaaaaa''"
    by (simp_all add: spec_valid_environment_def name_char_def is_lower_def less_eq_char_def)
  from C6_limits_or_build_failure [OF v(1), of example_this]
  have d: "spec_bucket_name_ok (artifactBucketName (infraPipelineProps example_this ''dev''))"
          "spec_bucket_name_ok (packagingBucketName (infraPipelineProps example_this ''dev''))"
    by simp_all
  have n: "map_sum thrown names (InfraStack example_this ''dev'') =
       Inr [''school-licenses-table'', ''sle-dev-infra-artifacts'', ''sle-dev-packaging-bucket'',
            ''sle-dev-git-infra-conn'', ''sle-dev-infra-codebuild'', ''sle-dev-infra-pipeline'',
            ''sle-dev-infra-cf'', ''sle-dev-infra-changeset'']"
    using InfraStack_accepted [of "''dev''" example_this] concrete_buckets_accepted
    by (simp add: names_of_stack)
  from C6_limits_or_build_failure [OF v(2), of example_this]
  have a: "InfraStack example_this ''aaaaaaaaaaaaaaaaaaaaaaaaaaaaaaaaaaaaaaaaaaa'' =
       Inl \<lparr> thrown = InvalidBucketName
                ''sle-aaaaaaaaaaaaaaaaaaaaaaaaaaaaaaaaaaaaaaaaaaa-packaging-bucket'',
             declared = [''Table'', ''InfraArtifactBucket''] \<rparr>"
    by simp
  from C6_limits_or_build_failure [OF v(3), of example_this]
  have b: "InfraStack example_this ''aaaaaaaaaaaaaaaaaaaaaaaaaaaaaaaaaaaaaaaaaaaa'' =
       Inl \<lparr> thrown = InvalidBucketName
                ''sle-aaaaaaaaaaaaaaaaaaaaaaaaaaaaaaaaaaaaaaaaaaaa-infra-artifacts'',
             declared = [''Table''] \<rparr>"
    by simp
  from v d n a b show ?thesis by blast
qed

section \<open>What the output depends on\<close>

text \<open>
  C7 as stated fails. With the same environment "dev", two stacks in different regions get
  different policy statements, and two stacks under different application contexts get
  different build variables: the output depends on state other than the environment token.
\<close>

theorem C7_counterexample:
  "derive \<lparr>stack_id = ''s'', region = ''us-east-1'', account = ''123456789012'',
            node_context = Map.empty\<rparr> ''dev''
     \<noteq> derive \<lparr>stack_id = ''s'', region = ''eu-west-1'', account = ''123456789012'',
                 node_context = Map.empty\<rparr> ''dev''
   \<and> InfraStack \<lparr>stack_id = ''s'', region = ''us-east-1'', account = ''123456789012'',
                  node_context = Map.empty\<rparr> ''dev''
     \<noteq> InfraStack \<lparr>stack_id = ''s'', region = ''us-east-1'', account = ''123456789012'',
                     node_context = [''environment'' \<mapsto> ''prod'']\<rparr> ''dev''"
proof -
  let ?us = "\<lparr>stack_id = ''s'', region = ''us-east-1'', account = ''123456789012'',
              node_context = Map.empty\<rparr>"
  let ?eu = "\<lparr>stack_id = ''s'', region = ''eu-west-1'', account = ''123456789012'',
              node_context = Map.empty\<rparr>"
  let ?ctx = "\<lparr>stack_id = ''s'', region = ''us-east-1'', account = ''123456789012'',
               node_context = [''environment'' \<mapsto> ''prod'']\<rparr>"
  have ok: "validateBucketName (''sle-'' @ ''dev'' @ ''-infra-artifacts'')"
           "validateBucketName (''sle-'' @ ''dev'' @ ''-packaging-bucket'')"
    using concrete_buckets_accepted by simp_all
  have "derive ?us ''dev'' \<noteq> derive ?eu ''dev''"
    unfolding derive_def InfraStack_accepted [OF ok]
    by (simp add: addedStatements_props codeBuildStatements_def)
  moreover have "InfraStack ?us ''dev'' \<noteq> InfraStack ?ctx ''dev''"
    unfolding InfraStack_accepted [OF ok]
    by (simp add: infraPipelineProps_def js_or_def tryGetContext_def)
  ultimately show ?thesis by blast
qed

text \<open>
  C7 (amended). The derivation is a function of its inputs, which are more than the
  environment token. With the same token \<open>env\<close>, the names that the method computes are the
  same whatever the stack objects are; the statements that it adds to the roles are the same
  when the stacks have the same region and account; and all that it declares is the same
  when, in addition, the application context has the same values for the keys
  \<^verbatim>\<open>environment\<close> and \<^verbatim>\<open>pipelineGithubBranch\<close>. Two calls that both return a stack return
  stacks that agree accordingly.
\<close>

theorem C7_output_determined:
  "pipelineNames (infraPipelineProps this1 env) = pipelineNames (infraPipelineProps this2 env)
   \<and> (region this1 = region this2 \<and> account this1 = account this2
        \<longrightarrow> addedStatements (infraPipelineProps this1 env)
              = addedStatements (infraPipelineProps this2 env))
   \<and> (region this1 = region this2 \<and> account this1 = account this2
        \<and> node_context this1 ''environment'' = node_context this2 ''environment''
        \<and> node_context this1 ''pipelineGithubBranch''
            = node_context this2 ''pipelineGithubBranch''
        \<longrightarrow> infraPipelineProps this1 env = infraPipelineProps this2 env)
   \<and> (\<forall>s1 s2. InfraStack this1 env = Inr s1 \<and> InfraStack this2 env = Inr s2
        \<longrightarrow> names s1 = names s2
          \<and> tableName s1 = tableName s2 \<and> tableTags s1 = tableTags s2
          \<and> (region this1 = region this2 \<and> account this1 = account this2
               \<longrightarrow> addedStatements (infraPipeline s1) = addedStatements (infraPipeline s2))
          \<and> (region this1 = region this2 \<and> account this1 = account this2
               \<and> node_context this1 ''environment'' = node_context this2 ''environment''
               \<and> node_context this1 ''pipelineGithubBranch''
                   = node_context this2 ''pipelineGithubBranch''
               \<longrightarrow> infraPipeline s1 = infraPipeline s2))"
proof -
  have n: "pipelineNames (infraPipelineProps this1 env)
             = pipelineNames (infraPipelineProps this2 env)"
    by (simp add: pipelineNames_props)
  have a: "addedStatements (infraPipelineProps this1 env)
              = addedStatements (infraPipelineProps this2 env)"
    if "region this1 = region this2 \<and> account this1 = account this2"
    using that
    by (simp add: addedStatements_props codeBuildStatements_def codePipelineStatements_def)
  have p: "infraPipelineProps this1 env = infraPipelineProps this2 env"
    if "region this1 = region this2 \<and> account this1 = account this2
        \<and> node_context this1 ''environment'' = node_context this2 ''environment''
        \<and> node_context this1 ''pipelineGithubBranch''
            = node_context this2 ''pipelineGithubBranch''"
    using that
    by (simp add: infraPipelineProps_def codeBuildStatements_def codePipelineStatements_def
          tryGetContext_def)
  have r: "names s1 = names s2
          \<and> tableName s1 = tableName s2 \<and> tableTags s1 = tableTags s2
          \<and> (region this1 = region this2 \<and> account this1 = account this2
               \<longrightarrow> addedStatements (infraPipeline s1) = addedStatements (infraPipeline s2))
          \<and> (region this1 = region this2 \<and> account this1 = account this2
               \<and> node_context this1 ''environment'' = node_context this2 ''environment''
               \<and> node_context this1 ''pipelineGithubBranch''
                   = node_context this2 ''pipelineGithubBranch''
               \<longrightarrow> infraPipeline s1 = infraPipeline s2)"
    if "InfraStack this1 env = Inr s1 \<and> InfraStack this2 env = Inr s2" for s1 s2
  proof -
    from that have 1: "InfraStack this1 env = Inr s1" and 2: "InfraStack this2 env = Inr s2"
      by simp_all
    show ?thesis
      unfolding InfraStack_Inr(3) [OF 1] InfraStack_Inr(3) [OF 2]
      using n a p by (simp add: names_def)
  qed
  from n a p r show ?thesis by blast
qed

text \<open>
  Two stacks for "dev" with the same region and account, different ids and different
  contexts that agree on the two keys: both constructors return, with the same pipeline
  declarations.
\<close>

theorem C7_output_determined_witness:
  "region example_this
     = region \<lparr>stack_id = ''other'', region = ''us-east-1'', account = ''123456789012'',
                node_context = [''owner'' \<mapsto> ''team'']\<rparr>
   \<and> account example_this
     = account \<lparr>stack_id = ''other'', region = ''us-east-1'', account = ''123456789012'',
                 node_context = [''owner'' \<mapsto> ''team'']\<rparr>
   \<and> node_context example_this ''environment''
     = node_context \<lparr>stack_id = ''other'', region = ''us-east-1'', account = ''123456789012'',
                      node_context = [''owner'' \<mapsto> ''team'']\<rparr> ''environment''
   \<and> node_context example_this ''pipelineGithubBranch''
     = node_context \<lparr>stack_id = ''other'', region = ''us-east-1'', account = ''123456789012'',
                      node_context = [''owner'' \<mapsto> ''team'']\<rparr> ''pipelineGithubBranch''
   \<and> map_sum thrown infraPipeline (InfraStack example_this ''dev'')
       = Inr (infraPipelineProps example_this ''dev'')
   \<and> map_sum thrown infraPipeline
       (InfraStack \<lparr>stack_id = ''other'', region = ''us-east-1'', account = ''123456789012'',
                    node_context = [''owner'' \<mapsto> ''team'']\<rparr> ''dev'')
       = Inr (infraPipelineProps example_this ''dev'')"
proof -
  let ?other = "\<lparr>stack_id = ''other'', region = ''us-east-1'', account = ''123456789012'',
                 node_context = [''owner'' \<mapsto> ''team'']\<rparr>"
  have h: "region example_this = region ?other \<and> account example_this = account ?other
      \<and> node_context example_this ''environment'' = node_context ?other ''environment''
      \<and> node_context example_this ''pipelineGithubBranch''
          = node_context ?other ''pipelineGithubBranch''"
    by simp
  have ok: "validateBucketName (''sle-'' @ ''dev'' @ ''-infra-artifacts'')"
           "validateBucketName (''sle-'' @ ''dev'' @ ''-packaging-bucket'')"
    using concrete_buckets_accepted by simp_all
  have 1: "map_sum thrown infraPipeline (InfraStack example_this ''dev'')
             = Inr (infraPipelineProps example_this ''dev'')"
    unfolding InfraStack_accepted [OF ok] by simp
  have 2: "map_sum thrown infraPipeline (InfraStack ?other ''dev'')
             = Inr (infraPipelineProps ?other ''dev'')"
    unfolding InfraStack_accepted [OF ok] by simp
  from h C7_output_determined [of example_this "''dev''" ?other]
  have "infraPipelineProps example_this ''dev'' = infraPipelineProps ?other ''dev''"
    by blast
  with h 1 2 show ?thesis by simp
qed

section \<open>The build variable ENVIRONMENT\<close>

text \<open>
  C8. The build variable \<^verbatim>\<open>ENVIRONMENT\<close> of the CodeBuild project is the value of the
  context key \<^verbatim>\<open>environment\<close> when the context has one (a truthy one, as \<^verbatim>\<open>||\<close> tests it:
  a string that is not empty), and the constructor's \<open>env\<close> otherwise. So there are inputs,
  a context value different from the parameter, for which the method returns a pipeline
  whose variable differs from the token that every derived name is built from.
\<close>

theorem C8_environment_variable:
  "map_of (environmentVariables (infraPipelineProps this env)) ''ENVIRONMENT''
     = Some (case tryGetContext (node_context this) ''environment'' of
               None \<Rightarrow> env
             | Some v \<Rightarrow> if v = [] then env else v)
   \<and> (\<forall>p. createInfraPipeline this env = Inr p \<longrightarrow>
         map_of (environmentVariables p) ''ENVIRONMENT''
           = Some (case tryGetContext (node_context this) ''environment'' of
                     None \<Rightarrow> env
                   | Some v \<Rightarrow> if v = [] then env else v))
   \<and> (\<exists>this' env' p v. createInfraPipeline this' env' = Inr p
         \<and> map_of (environmentVariables p) ''ENVIRONMENT'' = Some v
         \<and> v \<noteq> env'
         \<and> projectName p = ''sle-'' @ env' @ ''-infra-codebuild'')"
proof -
  have general: "map_of (environmentVariables (infraPipelineProps this env)) ''ENVIRONMENT''
     = Some (case tryGetContext (node_context this) ''environment'' of
               None \<Rightarrow> env
             | Some v \<Rightarrow> if v = [] then env else v)"
    by (simp add: infraPipelineProps_def js_or_def)
  have ret: "p = infraPipelineProps this env" if "createInfraPipeline this env = Inr p" for p
    using that by (simp add: createInfraPipeline_def Let_def split: if_splits)
  let ?t = "\<lparr>stack_id = ''sle-infrastructure-dev'', region = ''us-east-1'',
             account = ''123456789012'', node_context = [''environment'' \<mapsto> ''prod'']\<rparr>"
  have "createInfraPipeline ?t ''dev'' = Inr (infraPipelineProps ?t ''dev'')"
    using createInfraPipeline_accepted [of "''dev''" ?t] concrete_buckets_accepted by simp
  moreover have "map_of (environmentVariables (infraPipelineProps ?t ''dev'')) ''ENVIRONMENT''
          = Some ''prod''"
    by (simp add: infraPipelineProps_def js_or_def tryGetContext_def)
  moreover have "''prod'' \<noteq> ''dev''" by simp
  moreover have "projectName (infraPipelineProps ?t ''dev'')
                   = ''sle-'' @ ''dev'' @ ''-infra-codebuild''"
    by (simp add: infraPipelineProps_names)
  ultimately have "\<exists>this' env' p v. createInfraPipeline this' env' = Inr p
      \<and> map_of (environmentVariables p) ''ENVIRONMENT'' = Some v
      \<and> v \<noteq> env'
      \<and> projectName p = ''sle-'' @ env' @ ''-infra-codebuild''"
    by blast
  with general ret show ?thesis by blast
qed

theorem C8_environment_variable_witness:
  "createInfraPipeline
      \<lparr>stack_id = ''sle-infrastructure-dev'', region = ''us-east-1'',
       account = ''123456789012'', node_context = [''environment'' \<mapsto> ''prod'']\<rparr> ''dev''
     = Inr (infraPipelineProps
              \<lparr>stack_id = ''sle-infrastructure-dev'', region = ''us-east-1'',
               account = ''123456789012'',
               node_context = [''environment'' \<mapsto> ''prod'']\<rparr> ''dev'')
   \<and> map_of (environmentVariables (infraPipelineProps
      \<lparr>stack_id = ''sle-infrastructure-dev'', region = ''us-east-1'',
       account = ''123456789012'', node_context = [''environment'' \<mapsto> ''prod'']\<rparr> ''dev''))
     ''ENVIRONMENT'' = Some ''prod''
   \<and> map_of (environmentVariables (infraPipelineProps example_this ''dev''))
       ''ENVIRONMENT'' = Some ''dev''
   \<and> map_of (environmentVariables (infraPipelineProps
      \<lparr>stack_id = ''sle-infrastructure-dev'', region = ''us-east-1'',
       account = ''123456789012'', node_context = [''environment'' \<mapsto> '''']\<rparr> ''dev''))
     ''ENVIRONMENT'' = Some ''dev''"
proof -
  let ?t = "\<lparr>stack_id = ''sle-infrastructure-dev'', region = ''us-east-1'',
             account = ''123456789012'', node_context = [''environment'' \<mapsto> ''prod'']\<rparr>"
  have r: "createInfraPipeline ?t ''dev'' = Inr (infraPipelineProps ?t ''dev'')"
    using createInfraPipeline_accepted [of "''dev''" ?t] concrete_buckets_accepted by simp
  show ?thesis
    using r C8_environment_variable [of ?t "''dev''"]
        C8_environment_variable [of example_this "''dev''"]
        C8_environment_variable [of
          "\<lparr>stack_id = ''sle-infrastructure-dev'', region = ''us-east-1'',
            account = ''123456789012'', node_context = [''environment'' \<mapsto> '''']\<rparr>" "''dev''"]
    by (simp add: tryGetContext_def)
qed

section \<open>Names within one environment\<close>

text \<open>
  C9. For every environment string the names derived within that environment (table,
  artifact bucket, packaging bucket, connection, CodeBuild project, pipeline, stack, change
  set) are pairwise distinct: the seven names that the method computes are, none of them is
  the table name, and so the eight names of every stack that the constructor returns are.
  There is no collision of names within an environment.
\<close>

theorem C9_names_distinct:
  "distinct (''school-licenses-table'' # pipelineNames (infraPipelineProps this env))
   \<and> (\<forall>s. InfraStack this env = Inr s \<longrightarrow> distinct (names s))"
proof -
  have d: "distinct (''school-licenses-table'' # pipelineNames (infraPipelineProps this env))"
    by (simp add: pipelineNames_props)
  have "distinct (names s)" if r: "InfraStack this env = Inr s" for s
    unfolding InfraStack_Inr(3) [OF r] using d by (simp add: names_def)
  with d show ?thesis by blast
qed

theorem C9_names_distinct_witness:
  "\<exists>s. InfraStack example_this ''dev'' = Inr s \<and> distinct (names s)
     \<and> names s =
         [''school-licenses-table'', ''sle-dev-infra-artifacts'', ''sle-dev-packaging-bucket'',
          ''sle-dev-git-infra-conn'', ''sle-dev-infra-codebuild'', ''sle-dev-infra-pipeline'',
          ''sle-dev-infra-cf'', ''sle-dev-infra-changeset'']"
proof -
  have ok: "validateBucketName (''sle-'' @ ''dev'' @ ''-infra-artifacts'')"
           "validateBucketName (''sle-'' @ ''dev'' @ ''-packaging-bucket'')"
    using concrete_buckets_accepted by simp_all
  from InfraStack_accepted [OF ok, of example_this]
  obtain s where s: "InfraStack example_this ''dev'' = Inr s"
    and n: "names s =
         [''school-licenses-table'', ''sle-dev-infra-artifacts'', ''sle-dev-packaging-bucket'',
          ''sle-dev-git-infra-conn'', ''sle-dev-infra-codebuild'', ''sle-dev-infra-pipeline'',
          ''sle-dev-infra-cf'', ''sle-dev-infra-changeset'']"
    by (simp add: names_of_stack)
  from s C9_names_distinct [of example_this "''dev''"] have "distinct (names s)" by blast
  with s n show ?thesis by blast
qed

section \<open>The entry point\<close>

text \<open>
  C10. The environment token of the entry point is the value of the context key
  \<^verbatim>\<open>environment\<close> when the context has one that is not empty; when the context has no value
  for the key, the token is "dev". The stack is always instantiated with the id
  \<^verbatim>\<open>sle-infrastructure-<environment>\<close> and with that environment: the entry point fails in
  \<^verbatim>\<open>super\<close> when the library does not accept this id, and runs the constructor on this id and
  this environment otherwise. In every stack that it returns, the template path of the
  change-set action is the id followed by \<^verbatim>\<open>.template.json\<close>.
\<close>

theorem C10_default_and_stack_id:
  "app_environment a =
     (case tryGetContext (app_context a) ''environment'' of
        None \<Rightarrow> ''dev''
      | Some v \<Rightarrow> if v = [] then ''dev'' else v)
   \<and> (\<not> accepts (''sle-infrastructure-'' @ app_environment a) \<longrightarrow>
        main accepts a =
          Inl \<lparr> thrown = InvalidStackName (''sle-infrastructure-'' @ app_environment a),
                declared = [] \<rparr>)
   \<and> (accepts (''sle-infrastructure-'' @ app_environment a) \<longrightarrow>
        main accepts a =
          InfraStack \<lparr> stack_id = ''sle-infrastructure-'' @ app_environment a,
                       region = app_region a, account = app_account a,
                       node_context = app_context a \<rparr>
            (app_environment a))
   \<and> (\<forall>s. main accepts a = Inr s \<longrightarrow>
        construct_id s = ''sle-infrastructure-'' @ app_environment a
        \<and> templatePath (infraPipeline s) = construct_id s @ ''.template.json''
        \<and> tableTags s = [(''Environment'', app_environment a), (''Service'', ''sle''),
                          (''stack'', ''cdk-infra'')])"
proof (intro conjI impI allI)
  show "app_environment a =
     (case tryGetContext (app_context a) ''environment'' of
        None \<Rightarrow> ''dev''
      | Some v \<Rightarrow> if v = [] then ''dev'' else v)"
    by (simp add: app_environment_def js_or_def)
next
  assume "\<not> accepts (''sle-infrastructure-'' @ app_environment a)"
  then show "main accepts a =
          Inl \<lparr> thrown = InvalidStackName (''sle-infrastructure-'' @ app_environment a),
                declared = [] \<rparr>"
    by (simp add: main_def super_def Let_def)
next
  assume "accepts (''sle-infrastructure-'' @ app_environment a)"
  then show "main accepts a =
          InfraStack \<lparr> stack_id = ''sle-infrastructure-'' @ app_environment a,
                       region = app_region a, account = app_account a,
                       node_context = app_context a \<rparr>
            (app_environment a)"
    by (simp add: main_def super_def Let_def)
next
  fix s
  assume r: "main accepts a = Inr s"
  let ?stack = "\<lparr> stack_id = ''sle-infrastructure-'' @ app_environment a,
                 region = app_region a, account = app_account a,
                 node_context = app_context a \<rparr>"
  have acc: "accepts (''sle-infrastructure-'' @ app_environment a)"
  proof (rule ccontr)
    assume "\<not> accepts (''sle-infrastructure-'' @ app_environment a)"
    then have "main accepts a =
          Inl \<lparr> thrown = InvalidStackName (''sle-infrastructure-'' @ app_environment a),
                declared = [] \<rparr>"
      by (simp add: main_def super_def Let_def)
    with r show False by simp
  qed
  then have "main accepts a = InfraStack ?stack (app_environment a)"
    by (simp add: main_def super_def Let_def)
  with r have i: "InfraStack ?stack (app_environment a) = Inr s" by simp
  show "construct_id s = ''sle-infrastructure-'' @ app_environment a"
    unfolding InfraStack_Inr(3) [OF i] by simp
  show "templatePath (infraPipeline s) = construct_id s @ ''.template.json''"
    unfolding InfraStack_Inr(3) [OF i] by (simp add: infraPipelineProps_def)
  show "tableTags s = [(''Environment'', app_environment a), (''Service'', ''sle''),
                       (''stack'', ''cdk-infra'')]"
    unfolding InfraStack_Inr(3) [OF i] by simp
qed

text \<open>
  With the library's test of a stack name: no context gives the stack
  \<^verbatim>\<open>sle-infrastructure-dev\<close>; the context value "prod" gives \<^verbatim>\<open>sle-infrastructure-prod\<close>; the
  value "a_b" fails in \<^verbatim>\<open>super\<close>; the value "Dev" fails at the artifact bucket.
\<close>

theorem C10_default_and_stack_id_witness:
  "app_environment example_app = ''dev''
   \<and> map_sum thrown (\<lambda>s. (construct_id s, templatePath (infraPipeline s)))
       (main validStackName example_app)
       = Inr (''sle-infrastructure-dev'', ''sle-infrastructure-dev.template.json'')
   \<and> map_sum thrown (\<lambda>s. (construct_id s, templatePath (infraPipeline s)))
       (main validStackName
          \<lparr>app_context = [''environment'' \<mapsto> ''prod''], app_region = ''us-east-1'',
           app_account = ''123456789012''\<rparr>)
       = Inr (''sle-infrastructure-prod'', ''sle-infrastructure-prod.template.json'')
   \<and> main validStackName
        \<lparr>app_context = [''environment'' \<mapsto> ''a_b''], app_region = ''us-east-1'',
         app_account = ''123456789012''\<rparr>
       = Inl \<lparr> thrown = InvalidStackName ''sle-infrastructure-a_b'', declared = [] \<rparr>
   \<and> main validStackName
        \<lparr>app_context = [''environment'' \<mapsto> ''Dev''], app_region = ''us-east-1'',
         app_account = ''123456789012''\<rparr>
       = Inl \<lparr> thrown = InvalidBucketName ''sle-Dev-infra-artifacts'',
               declared = [''Table''] \<rparr>"
proof -
  let ?prod = "\<lparr>app_context = [''environment'' \<mapsto> ''prod''], app_region = ''us-east-1'',
                app_account = ''123456789012''\<rparr>"
  let ?bad = "\<lparr>app_context = [''environment'' \<mapsto> ''a_b''], app_region = ''us-east-1'',
               app_account = ''123456789012''\<rparr>"
  let ?upper = "\<lparr>app_context = [''environment'' \<mapsto> ''Dev''], app_region = ''us-east-1'',
                 app_account = ''123456789012''\<rparr>"
  have ids: "validStackName ''sle-infrastructure-dev''"
            "validStackName ''sle-infrastructure-prod''"
            "\<not> validStackName ''sle-infrastructure-a_b''"
            "validStackName ''sle-infrastructure-Dev''"
    by (simp_all add: validStackName_def is_lower_def is_upper_def is_digit_def less_eq_char_def)
  have envs: "app_environment example_app = ''dev''" "app_environment ?prod = ''prod''"
             "app_environment ?bad = ''a_b''" "app_environment ?upper = ''Dev''"
    using C10_default_and_stack_id [of example_app validStackName]
          C10_default_and_stack_id [of ?prod validStackName]
          C10_default_and_stack_id [of ?bad validStackName]
          C10_default_and_stack_id [of ?upper validStackName]
    by (simp_all add: tryGetContext_def)
  have ok: "validateBucketName (''sle-'' @ ''dev'' @ ''-infra-artifacts'')"
           "validateBucketName (''sle-'' @ ''dev'' @ ''-packaging-bucket'')"
           "validateBucketName (''sle-'' @ ''prod'' @ ''-infra-artifacts'')"
           "validateBucketName (''sle-'' @ ''prod'' @ ''-packaging-bucket'')"
    using concrete_buckets_accepted by simp_all
  have no: "\<not> validateBucketName (''sle-'' @ ''Dev'' @ ''-infra-artifacts'')"
    by (rule illegal_char_rejected [of "CHR ''D''"])
       (simp_all add: bucket_char_def is_lower_def is_digit_def less_eq_char_def)
  have 1: "map_sum thrown (\<lambda>s. (construct_id s, templatePath (infraPipeline s)))
       (main validStackName example_app)
       = Inr (''sle-infrastructure-dev'', ''sle-infrastructure-dev.template.json'')"
    using C10_default_and_stack_id [of example_app validStackName] ids envs
    by (simp add: InfraStack_accepted [OF ok(1,2)] infraPipelineProps_def)
  have 2: "map_sum thrown (\<lambda>s. (construct_id s, templatePath (infraPipeline s)))
       (main validStackName ?prod)
       = Inr (''sle-infrastructure-prod'', ''sle-infrastructure-prod.template.json'')"
    using C10_default_and_stack_id [of ?prod validStackName] ids envs
    by (simp add: InfraStack_accepted [OF ok(3,4)] infraPipelineProps_def)
  have 3: "main validStackName ?bad
       = Inl \<lparr> thrown = InvalidStackName ''sle-infrastructure-a_b'', declared = [] \<rparr>"
    using C10_default_and_stack_id [of ?bad validStackName] ids envs by simp
  have 4: "main validStackName ?upper
       = Inl \<lparr> thrown = InvalidBucketName ''sle-Dev-infra-artifacts'',
               declared = [''Table''] \<rparr>"
    using C10_default_and_stack_id [of ?upper validStackName] ids envs
    by (simp add: InfraStack_artifact_rejected [OF no])
  from envs(1) 1 2 3 4 show ?thesis by blast
qed

end
